theory Spec2Isabelle
  imports Complex_Main
begin

section \<open>JavaScript values used by the template\<close>

text \<open>
  Numbers that reach the code as counts and sizes are the results of \<open>parseInt\<close> or
  integer literals: an integer or \<open>NaN\<close>. The model keeps them exact; the source holds
  them as doubles, which agree with the integers up to \<open>2^53\<close>, and every use below
  compares them with, or clamps them to, the length of a string or an array.
  Fractions and the infinities are not modelled, and \<open>-0\<close> is \<open>0\<close>.
  Strings are lists of 8-bit characters, so the model covers text whose code units
  lie below 256.
\<close>

datatype jsnum = NaN | Finite int

text \<open>
  Thrown values: an \<open>Error\<close> made by the code with its message, or the \<open>RangeError\<close> that
  the engine throws when an array cannot grow.
\<close>

datatype error = Error string | RangeError string

datatype jsval =
    JUndefined
  | JNull
  | JBool bool
  | JNum jsnum
  | JStr string
  | JError error
  | JObject "(string \<times> jsval) list"

text \<open>Truthiness, as tested by \<open>if (data)\<close>.\<close>

fun truthy :: "jsval \<Rightarrow> bool" where
  "truthy JUndefined = False"
| "truthy JNull = False"
| "truthy (JBool b) = b"
| "truthy (JNum NaN) = False"
| "truthy (JNum (Finite n)) = (n \<noteq> 0)"
| "truthy (JStr s) = (s \<noteq> [])"
| "truthy (JError e) = True"
| "truthy (JObject kvs) = True"

text \<open>\<open>a + b\<close> and \<open>a < b\<close> on numbers: \<open>NaN\<close> absorbs, and every comparison with it is false.\<close>

fun js_add :: "jsnum \<Rightarrow> jsnum \<Rightarrow> jsnum" where
  "js_add (Finite a) (Finite b) = Finite (a + b)"
| "js_add _ _ = NaN"

fun js_lt :: "jsnum \<Rightarrow> jsnum \<Rightarrow> bool" where
  "js_lt (Finite a) (Finite b) = (a < b)"
| "js_lt _ _ = False"

text \<open>\<open>ToIntegerOrInfinity\<close>: \<open>NaN\<close> becomes 0.\<close>

fun toInteger :: "jsnum \<Rightarrow> int" where
  "toInteger NaN = 0"
| "toInteger (Finite n) = n"

text \<open>
  \<open>String.prototype.slice(start, end)\<close> and \<open>Array.prototype.slice(start, end)\<close>: a negative
  index counts from the end, both indices are clamped to the length, and an empty
  range gives the empty result.
\<close>

definition slice :: "'a list \<Rightarrow> jsnum \<Rightarrow> jsnum \<Rightarrow> 'a list" where
  "slice xs start end =
     (let len = int (length xs);
          relStart = toInteger start;
          from = (if relStart < 0 then max (len + relStart) 0 else min relStart len);
          relEnd = toInteger end;
          to = (if relEnd < 0 then max (len + relEnd) 0 else min relEnd len)
      in take (nat (to - from)) (drop (nat from) xs))"

text \<open>\<open>Array.prototype.indexOf\<close>: the first position of the element, or \<open>-1\<close>.\<close>

fun indexOf :: "'a list \<Rightarrow> 'a \<Rightarrow> int" where
  "indexOf [] x = -1"
| "indexOf (y # ys) x =
     (if y = x then 0 else (let r = indexOf ys x in if r < 0 then -1 else r + 1))"

text \<open>\<open>Array.prototype.join(sep)\<close> on strings.\<close>

fun join :: "string \<Rightarrow> string list \<Rightarrow> string" where
  "join sep [] = []"
| "join sep [x] = x"
| "join sep (x # y # ys) = x @ sep @ join sep (y # ys)"

text \<open>\<open>String.prototype.toUpperCase\<close> on the ASCII letters.\<close>

definition upperChar :: "char \<Rightarrow> char" where
  "upperChar c =
     (let n = (of_char c :: nat) in if 97 \<le> n \<and> n \<le> 122 then char_of (n - 32) else c)"

definition toUpperCase :: "string \<Rightarrow> string" where
  "toUpperCase s = map upperChar s"

subsection \<open>parseInt\<close>

text \<open>
  \<open>parseInt(s)\<close> with no radix: leading white space is dropped, then an optional sign,
  then an optional \<open>0x\<close>/\<open>0X\<close> prefix that selects radix 16 (radix 10 otherwise), then
  the longest run of digits of that radix. No digit gives \<open>NaN\<close>.
\<close>

definition isWhiteSpace :: "char \<Rightarrow> bool" where
  "isWhiteSpace c = ((of_char c :: nat) \<in> {9, 10, 11, 12, 13, 32, 160})"

definition digitValue :: "nat \<Rightarrow> char \<Rightarrow> nat option" where
  "digitValue R c =
     (let n = (of_char c :: nat);
          d = (if 48 \<le> n \<and> n \<le> 57 then Some (n - 48)
               else if 97 \<le> n \<and> n \<le> 122 then Some (n - 87)
               else if 65 \<le> n \<and> n \<le> 90 then Some (n - 55)
               else None)
      in case d of None \<Rightarrow> None | Some v \<Rightarrow> (if v < R then Some v else None))"

fun digitsValue :: "nat \<Rightarrow> nat \<Rightarrow> string \<Rightarrow> nat option" where
  "digitsValue R acc [] = None"
| "digitsValue R acc (c # cs) =
     (case digitValue R c of
        None \<Rightarrow> None
      | Some v \<Rightarrow>
          (case digitsValue R (acc * R + v) cs of
             None \<Rightarrow> Some (acc * R + v)
           | Some w \<Rightarrow> Some w))"

definition parseInt :: "string \<Rightarrow> jsnum" where
  "parseInt s =
     (let S = dropWhile isWhiteSpace s;
          sign = (if S \<noteq> [] \<and> hd S = CHR ''-'' then - 1 else (1::int));
          S1 = (if S \<noteq> [] \<and> (hd S = CHR ''+'' \<or> hd S = CHR ''-'') then tl S else S);
          hex = (take 2 S1 = ''0x'' \<or> take 2 S1 = ''0X'');
          R = (if hex then 16 else 10);
          S2 = (if hex then drop 2 S1 else S1)
      in case digitsValue R 0 S2 of
           None \<Rightarrow> NaN
         | Some v \<Rightarrow> Finite (sign * int v))"

section \<open>Configuration (types and ConfigManager)\<close>

text \<open>
  \<open>LangChainConfig\<close> has three sections. The temperature is the result of
  \<open>parseFloat\<close>, a double: its type is left open (\<open>'f\<close>) and \<open>parseFloat\<close> is a
  parameter of \<open>loadConfig\<close>. The logging level is an unchecked string at run time
  (\<open>process.env.LOG_LEVEL as any\<close>).
\<close>

record 'f openai_cfg =
  apiKey :: string
  openai_model :: string
  temperature :: 'f
  maxTokens :: jsnum

record embeddings_cfg =
  embeddings_model :: string
  chunkSize :: jsnum
  chunkOverlap :: jsnum

record logging_cfg =
  level :: string
  enableConsole :: bool

record 'f LangChainConfig =
  openai :: "'f openai_cfg"
  embeddings :: embeddings_cfg
  logging :: logging_cfg

text \<open>\<open>Partial<LangChainConfig>\<close>: each top-level section is present or absent.\<close>

record 'f PartialConfig =
  p_openai :: "'f openai_cfg option"
  p_embeddings :: "embeddings_cfg option"
  p_logging :: "logging_cfg option"

text \<open>\<open>process.env\<close>: a variable is unset or holds a string.\<close>

type_synonym env = "string \<Rightarrow> string option"

text \<open>\<open>process.env.X || d\<close>: an unset or empty variable gives the default.\<close>

definition env_or :: "env \<Rightarrow> string \<Rightarrow> string \<Rightarrow> string" where
  "env_or e k d = (case e k of None \<Rightarrow> d | Some v \<Rightarrow> (if v = [] then d else v))"

definition loadConfig :: "(string \<Rightarrow> 'f) \<Rightarrow> env \<Rightarrow> 'f LangChainConfig" where
  "loadConfig parseFloat e =
     \<lparr> openai =
         \<lparr> apiKey = env_or e ''OPENAI_API_KEY'' [],
           openai_model = env_or e ''OPENAI_MODEL'' ''gpt-3.5-turbo'',
           temperature = parseFloat (env_or e ''OPENAI_TEMPERATURE'' ''0.7''),
           maxTokens = parseInt (env_or e ''OPENAI_MAX_TOKENS'' ''1000'') \<rparr>,
       embeddings =
         \<lparr> embeddings_model = env_or e ''EMBEDDING_MODEL'' ''text-embedding-ada-002'',
           chunkSize = parseInt (env_or e ''CHUNK_SIZE'' ''1000''),
           chunkOverlap = parseInt (env_or e ''CHUNK_OVERLAP'' ''200'') \<rparr>,
       logging =
         \<lparr> level = env_or e ''LOG_LEVEL'' ''info'',
           enableConsole = (e ''ENABLE_CONSOLE_LOGGING'' \<noteq> Some ''false'') \<rparr> \<rparr>"

record 'f ConfigManager =
  cm_config :: "'f LangChainConfig"

definition validateConfig :: "'f ConfigManager \<Rightarrow> error + unit" where
  "validateConfig cm =
     (if apiKey (openai (cm_config cm)) = []
      then Inl (Error ''OPENAI_API_KEY environment variable is required'')
      else Inr ())"

text \<open>The private constructor: load, then validate; a failed validation leaves no object.\<close>

definition new_ConfigManager :: "(string \<Rightarrow> 'f) \<Rightarrow> env \<Rightarrow> error + 'f ConfigManager" where
  "new_ConfigManager parseFloat e =
     (let cm = \<lparr> cm_config = loadConfig parseFloat e \<rparr>
      in case validateConfig cm of Inl err \<Rightarrow> Inl err | Inr _ \<Rightarrow> Inr cm)"

text \<open>
  \<open>getInstance\<close>: the static slot \<open>instance\<close> is passed in and returned; it is filled by
  the first successful construction.
\<close>

definition ConfigManager_getInstance ::
  "(string \<Rightarrow> 'f) \<Rightarrow> env \<Rightarrow> 'f ConfigManager option
     \<Rightarrow> (error + 'f ConfigManager) \<times> 'f ConfigManager option" where
  "ConfigManager_getInstance parseFloat e inst =
     (case inst of
        Some cm \<Rightarrow> (Inr cm, Some cm)
      | None \<Rightarrow>
          (case new_ConfigManager parseFloat e of
             Inl err \<Rightarrow> (Inl err, None)
           | Inr cm \<Rightarrow> (Inr cm, Some cm)))"

definition ConfigManager_getConfig :: "'f ConfigManager \<Rightarrow> 'f LangChainConfig" where
  "ConfigManager_getConfig cm = cm_config cm"

text \<open>\<open>{ ...this.config, ...newConfig }\<close>: a section present in the partial replaces the whole section.\<close>

definition spread :: "'f LangChainConfig \<Rightarrow> 'f PartialConfig \<Rightarrow> 'f LangChainConfig" where
  "spread c p =
     \<lparr> openai = (case p_openai p of None \<Rightarrow> openai c | Some s \<Rightarrow> s),
       embeddings = (case p_embeddings p of None \<Rightarrow> embeddings c | Some s \<Rightarrow> s),
       logging = (case p_logging p of None \<Rightarrow> logging c | Some s \<Rightarrow> s) \<rparr>"

text \<open>\<open>updateConfig\<close>: the assignment comes first, the validation second.\<close>

definition ConfigManager_updateConfig ::
  "'f ConfigManager \<Rightarrow> 'f PartialConfig \<Rightarrow> (error + unit) \<times> 'f ConfigManager" where
  "ConfigManager_updateConfig cm newConfig =
     (let cm' = cm\<lparr> cm_config := spread (cm_config cm) newConfig \<rparr>
      in (validateConfig cm', cm'))"

section \<open>Logger\<close>

text \<open>
  What the process does to the outside: the lines written with \<open>console.log\<close>, oldest
  first, and the delays requested with \<open>setTimeout\<close>, in milliseconds, in the order
  they were awaited. A console line is \<open>[timestamp] [TAG] message\<close> and, when the
  data is truthy, the data as a second argument; the timestamp is read off the system
  clock and is not part of the model.
\<close>

record log_line =
  tag :: string
  message :: string
  extra :: "jsval option"

record world =
  console :: "log_line list"
  timers :: "nat list"

record 'f Logger =
  logger_config :: "'f LangChainConfig"

definition Logger_log :: "'f Logger \<Rightarrow> string \<Rightarrow> string \<Rightarrow> jsval \<Rightarrow> world \<Rightarrow> world" where
  "Logger_log lg lvl msg data w =
     (if \<not> enableConsole (logging (logger_config lg)) then w
      else if truthy data
      then w\<lparr> console := console w @ [\<lparr> tag = toUpperCase lvl, message = msg, extra = Some data \<rparr>] \<rparr>
      else w\<lparr> console := console w @ [\<lparr> tag = toUpperCase lvl, message = msg, extra = None \<rparr>] \<rparr>)"

definition Logger_shouldLog :: "'f Logger \<Rightarrow> string \<Rightarrow> bool" where
  "Logger_shouldLog lg lvl =
     (let levels = [''debug'', ''info'', ''warn'', ''error''];
          currentLevelIndex = indexOf levels (level (logging (logger_config lg)));
          messageLevelIndex = indexOf levels lvl
      in messageLevelIndex \<ge> currentLevelIndex)"

definition Logger_debug :: "'f Logger \<Rightarrow> string \<Rightarrow> jsval \<Rightarrow> world \<Rightarrow> world" where
  "Logger_debug lg msg data w =
     (if Logger_shouldLog lg ''debug'' then Logger_log lg ''debug'' msg data w else w)"

definition Logger_info :: "'f Logger \<Rightarrow> string \<Rightarrow> jsval \<Rightarrow> world \<Rightarrow> world" where
  "Logger_info lg msg data w =
     (if Logger_shouldLog lg ''info'' then Logger_log lg ''info'' msg data w else w)"

definition Logger_warn :: "'f Logger \<Rightarrow> string \<Rightarrow> jsval \<Rightarrow> world \<Rightarrow> world" where
  "Logger_warn lg msg data w =
     (if Logger_shouldLog lg ''warn'' then Logger_log lg ''warn'' msg data w else w)"

definition Logger_error :: "'f Logger \<Rightarrow> string \<Rightarrow> jsval \<Rightarrow> world \<Rightarrow> world" where
  "Logger_error lg msg data w =
     (if Logger_shouldLog lg ''error'' then Logger_log lg ''error'' msg data w else w)"

text \<open>The order of severities in the words of the specification: debug < info < warn < error.\<close>

definition spec_rank :: "string \<Rightarrow> nat" where
  "spec_rank l =
     (if l = ''debug'' then 0 else if l = ''info'' then 1 else if l = ''warn'' then 2 else 3)"

section \<open>ModelManager\<close>

record 'f ModelManager =
  mm_config :: "'f LangChainConfig"
  mm_logger :: "'f Logger"
  mm_initialized :: bool

definition new_ModelManager :: "'f LangChainConfig \<Rightarrow> 'f Logger \<Rightarrow> 'f ModelManager" where
  "new_ModelManager cfg lg = \<lparr> mm_config = cfg, mm_logger = lg, mm_initialized = False \<rparr>"

text \<open>
  \<open>await new Promise(resolve => setTimeout(resolve, ms))\<close>: the promise never rejects.
\<close>

definition sleep :: "nat \<Rightarrow> world \<Rightarrow> (error + unit) \<times> world" where
  "sleep ms w = (Inr (), w\<lparr> timers := timers w @ [ms] \<rparr>)"

text \<open>The timer callback logs at debug level and then resolves.\<close>

definition simulateInitialization :: "'f ModelManager \<Rightarrow> world \<Rightarrow> (error + unit) \<times> world" where
  "simulateInitialization mm w =
     (Inr (), Logger_debug (mm_logger mm) ''Model initialization simulated'' JUndefined
                (w\<lparr> timers := timers w @ [100] \<rparr>))"

definition ModelManager_initialize ::
  "'f ModelManager \<Rightarrow> world \<Rightarrow> (error + unit) \<times> 'f ModelManager \<times> world" where
  "ModelManager_initialize mm w =
     (if mm_initialized mm
      then (Inr (), mm, Logger_warn (mm_logger mm) ''ModelManager already initialized'' JUndefined w)
      else
        (let w1 = Logger_info (mm_logger mm) ''Initializing ModelManager...'' JUndefined w
         in case simulateInitialization mm w1 of
              (Inr _, w2) \<Rightarrow>
                (Inr (), mm\<lparr> mm_initialized := True \<rparr>,
                 Logger_info (mm_logger mm) ''ModelManager initialized successfully'' JUndefined w2)
            | (Inl err, w2) \<Rightarrow>
                (Inl err, mm,
                 Logger_error (mm_logger mm) ''Failed to initialize ModelManager'' (JError err) w2)))"

definition ModelManager_testConnection :: "'f ModelManager \<Rightarrow> world \<Rightarrow> bool \<times> world" where
  "ModelManager_testConnection mm w =
     (let w1 = Logger_info (mm_logger mm) ''Testing model connection...'' JUndefined w
      in case sleep 50 w1 of
           (Inr _, w2) \<Rightarrow>
             (True, Logger_info (mm_logger mm) ''Model connection test successful'' JUndefined w2)
         | (Inl err, w2) \<Rightarrow>
             (False, Logger_error (mm_logger mm) ''Model connection test failed'' (JError err) w2))"

definition ModelManager_getConfig :: "'f ModelManager \<Rightarrow> 'f LangChainConfig" where
  "ModelManager_getConfig mm = mm_config mm"

definition ModelManager_isInitialized :: "'f ModelManager \<Rightarrow> bool" where
  "ModelManager_isInitialized mm = mm_initialized mm"

definition ModelManager_reinitialize ::
  "'f ModelManager \<Rightarrow> world \<Rightarrow> (error + unit) \<times> 'f ModelManager \<times> world" where
  "ModelManager_reinitialize mm w = ModelManager_initialize (mm\<lparr> mm_initialized := False \<rparr>) w"

definition ModelManager_getChatModel :: "'f ModelManager \<Rightarrow> world \<Rightarrow> (error + jsval) \<times> world" where
  "ModelManager_getChatModel mm w =
     (if \<not> mm_initialized mm
      then (Inl (Error ''ModelManager must be initialized before use''), w)
      else (Inr JNull, Logger_debug (mm_logger mm) ''Getting chat model instance'' JUndefined w))"

definition ModelManager_getEmbeddings :: "'f ModelManager \<Rightarrow> world \<Rightarrow> (error + jsval) \<times> world" where
  "ModelManager_getEmbeddings mm w =
     (if \<not> mm_initialized mm
      then (Inl (Error ''ModelManager must be initialized before use''), w)
      else (Inr JNull, Logger_debug (mm_logger mm) ''Getting embeddings instance'' JUndefined w))"

definition ModelManager_getTextSplitter :: "'f ModelManager \<Rightarrow> world \<Rightarrow> (error + jsval) \<times> world" where
  "ModelManager_getTextSplitter mm w =
     (if \<not> mm_initialized mm
      then (Inl (Error ''ModelManager must be initialized before use''), w)
      else (Inr JNull, Logger_debug (mm_logger mm) ''Getting text splitter instance'' JUndefined w))"

section \<open>LangChainCore\<close>

text \<open>
  The core holds a reference to the model manager and a logger. The manager is a shared
  mutable object (the facade initializes it after the core has been built), so every
  operation takes the manager in its current state, next to the core's own fields.
\<close>

record 'f LangChainCore =
  core_logger :: "'f Logger"

record SearchResult =
  content :: string
  score :: real

record VectorStore =
  documents :: "string list"
  search :: "string \<Rightarrow> jsnum option \<Rightarrow> SearchResult list"

record RAGResponse =
  result :: string
  sourceDocuments :: "SearchResult list"

record RAGChain =
  vectorStore :: VectorStore
  rag_call :: "string \<Rightarrow> RAGResponse"

record 'v PromptChain =
  template :: string
  prompt_call :: "'v \<Rightarrow> string"

text \<open>A parameter \<open>k: number = 4\<close>: an absent argument takes the default.\<close>

definition default_k :: "jsnum option \<Rightarrow> jsnum" where
  "default_k k = (case k of None \<Rightarrow> Finite 4 | Some n \<Rightarrow> n)"

definition simpleChat ::
  "'f LangChainCore \<Rightarrow> 'f ModelManager \<Rightarrow> string \<Rightarrow> string option \<Rightarrow> world
     \<Rightarrow> (error + string) \<times> world" where
  "simpleChat core mm msg systemPrompt w =
     (let w1 = Logger_info (core_logger core) ''Executing simple chat...'' JUndefined w
      in if \<not> ModelManager_isInitialized mm
         then (let err = Error ''ModelManager must be initialized before use''
               in (Inl err, Logger_error (core_logger core) ''Error in simple chat'' (JError err) w1))
         else (Inr (''Echo: '' @ msg),
               Logger_info (core_logger core) ''Simple chat completed successfully'' JUndefined w1))"

text \<open>\<open>JSON.stringify\<close> is a parameter.\<close>

definition createPromptChain ::
  "('v \<Rightarrow> string) \<Rightarrow> 'f LangChainCore \<Rightarrow> 'f ModelManager \<Rightarrow> string \<Rightarrow> world
     \<Rightarrow> (error + 'v PromptChain) \<times> world" where
  "createPromptChain stringify core mm tmpl w =
     (let w1 = Logger_info (core_logger core) ''Creating prompt chain...'' JUndefined w
      in if \<not> ModelManager_isInitialized mm
         then (let err = Error ''ModelManager must be initialized before use''
               in (Inl err,
                   Logger_error (core_logger core) ''Error creating prompt chain'' (JError err) w1))
         else (Inr \<lparr> template = tmpl,
                     prompt_call = (\<lambda>variables. ''Processed: '' @ stringify variables) \<rparr>,
               Logger_info (core_logger core) ''Prompt chain created successfully'' JUndefined w1))"

definition createVectorStore ::
  "'f LangChainCore \<Rightarrow> 'f ModelManager \<Rightarrow> string list \<Rightarrow> world
     \<Rightarrow> (error + VectorStore) \<times> world" where
  "createVectorStore core mm docs w =
     (let w1 = Logger_info (core_logger core) ''Creating vector store...'' JUndefined w
      in if \<not> ModelManager_isInitialized mm
         then (let err = Error ''ModelManager must be initialized before use''
               in (Inl err,
                   Logger_error (core_logger core) ''Error creating vector store'' (JError err) w1))
         else (Inr \<lparr> documents = docs,
                     search = (\<lambda>query k.
                        map (\<lambda>doc. \<lparr> content = doc, score = 0.8 \<rparr>)
                            (slice docs (Finite 0) (default_k k))) \<rparr>,
               Logger_info (core_logger core) ''Vector store created successfully''
                 (JObject [(''docCount'', JNum (Finite (int (length docs))))]) w1))"

definition createRAGChain ::
  "'f LangChainCore \<Rightarrow> 'f ModelManager \<Rightarrow> string list \<Rightarrow> world
     \<Rightarrow> (error + RAGChain) \<times> world" where
  "createRAGChain core mm docs w =
     (let w1 = Logger_info (core_logger core) ''Creating RAG chain...'' JUndefined w
      in case createVectorStore core mm docs w1 of
           (Inl err, w2) \<Rightarrow>
             (Inl err, Logger_error (core_logger core) ''Error creating RAG chain'' (JError err) w2)
         | (Inr vs, w2) \<Rightarrow>
             (Inr \<lparr> vectorStore = vs,
                    rag_call = (\<lambda>query.
                       (let relevantDocs = search vs query None
                        in \<lparr> result = ''RAG response based on: ''
                                       @ join '', '' (map content relevantDocs),
                             sourceDocuments = relevantDocs \<rparr>)) \<rparr>,
              Logger_info (core_logger core) ''RAG chain created successfully'' JUndefined w2))"

definition similaritySearch ::
  "'f LangChainCore \<Rightarrow> 'f ModelManager \<Rightarrow> string \<Rightarrow> string list \<Rightarrow> jsnum option \<Rightarrow> world
     \<Rightarrow> (error + SearchResult list) \<times> world" where
  "similaritySearch core mm query docs k w =
     (let w1 = Logger_info (core_logger core) ''Performing similarity search...'' JUndefined w
      in case createVectorStore core mm docs w1 of
           (Inl err, w2) \<Rightarrow>
             (Inl err, Logger_error (core_logger core) ''Error in similarity search'' (JError err) w2)
         | (Inr vs, w2) \<Rightarrow>
             (let results = search vs query (Some (default_k k))
              in (Inr results,
                  Logger_info (core_logger core) ''Similarity search completed''
                    (JObject [(''resultCount'', JNum (Finite (int (length results))))]) w2)))"

text \<open>
  \<open>Math.random\<close> is a parameter: \<open>random i\<close> is the \<open>i\<close>-th number drawn during the call.
\<close>

definition LangChainCore_getEmbeddings ::
  "(nat \<Rightarrow> 'r) \<Rightarrow> 'f LangChainCore \<Rightarrow> 'f ModelManager \<Rightarrow> string \<Rightarrow> world
     \<Rightarrow> (error + 'r list) \<times> world" where
  "LangChainCore_getEmbeddings random core mm txt w =
     (let w1 = Logger_info (core_logger core) ''Getting embeddings for text...'' JUndefined w
      in if \<not> ModelManager_isInitialized mm
         then (let err = Error ''ModelManager must be initialized before use''
               in (Inl err,
                   Logger_error (core_logger core) ''Error getting embeddings'' (JError err) w1))
         else (Inr (map random [0..<1536]),
               Logger_info (core_logger core) ''Embeddings generated successfully'' JUndefined w1))"

text \<open>
  The chunking loop \<open>for (let i = 0; i < text.length; i += chunkSize)\<close>. Every round
  calls \<open>chunks.push\<close>, and an array has a maximum length (\<open>2^32 - 1\<close> elements by the
  language standard, fewer in an engine): a push on a full array throws
  \<open>RangeError: Invalid array length\<close>. The maximum is the parameter \<open>maxLength\<close>. The loop
  therefore ends after at most \<open>maxLength\<close> rounds, by its condition or by the throw.
\<close>

function splitText_loop ::
  "nat \<Rightarrow> string \<Rightarrow> jsnum \<Rightarrow> jsnum \<Rightarrow> string list \<Rightarrow> error + string list" where
  "splitText_loop maxLength txt csize i chunks =
     (if js_lt i (Finite (int (length txt)))
      then (if length chunks < maxLength
            then splitText_loop maxLength txt csize (js_add i csize)
                   (chunks @ [slice txt i (js_add i csize)])
            else Inl (RangeError ''Invalid array length''))
      else Inr chunks)"
  by pat_completeness auto
termination
  by (relation "measure (\<lambda>(maxLength, txt, csize, i, chunks). maxLength - length chunks)") auto

declare splitText_loop.simps [simp del]

text \<open>The \<open>catch\<close> block logs whatever the body throws and throws it again.\<close>

definition splitText ::
  "nat \<Rightarrow> 'f LangChainCore \<Rightarrow> 'f ModelManager \<Rightarrow> string \<Rightarrow> world
     \<Rightarrow> (error + string list) \<times> world" where
  "splitText maxLength core mm txt w =
     (let w1 = Logger_info (core_logger core) ''Splitting text into chunks...'' JUndefined w
      in if \<not> ModelManager_isInitialized mm
         then (let err = Error ''ModelManager must be initialized before use''
               in (Inl err,
                   Logger_error (core_logger core) ''Error splitting text'' (JError err) w1))
         else
           (case splitText_loop maxLength txt
                   (chunkSize (embeddings (ModelManager_getConfig mm))) (Finite 0) [] of
              Inl err \<Rightarrow>
                (Inl err,
                 Logger_error (core_logger core) ''Error splitting text'' (JError err) w1)
            | Inr chunks \<Rightarrow>
                (Inr chunks,
                 Logger_info (core_logger core) ''Text split successfully''
                   (JObject [(''chunkCount'', JNum (Finite (int (length chunks))))]) w1)))"

section \<open>LangChainStarter\<close>

record 'f LangChainStarter =
  app_config :: "'f LangChainConfig"
  app_logger :: "'f Logger"
  app_modelManager :: "'f ModelManager"
  app_core :: "'f LangChainCore"
  app_initialized :: bool

definition new_LangChainStarter ::
  "(string \<Rightarrow> 'f) \<Rightarrow> env \<Rightarrow> 'f ConfigManager option
     \<Rightarrow> (error + 'f LangChainStarter) \<times> 'f ConfigManager option" where
  "new_LangChainStarter parseFloat e inst =
     (case ConfigManager_getInstance parseFloat e inst of
        (Inl err, inst') \<Rightarrow> (Inl err, inst')
      | (Inr cm, inst') \<Rightarrow>
          (let cfg = ConfigManager_getConfig cm;
               lg = \<lparr> logger_config = cfg \<rparr>
           in (Inr \<lparr> app_config = cfg,
                     app_logger = lg,
                     app_modelManager = new_ModelManager cfg lg,
                     app_core = \<lparr> core_logger = lg \<rparr>,
                     app_initialized = False \<rparr>,
               inst')))"

text \<open>
  \<open>initialize\<close> calls the manager's \<open>testConnection\<close> method. The method is a parameter
  here, so that a manager whose connection test fails can be put in its place;
  \<open>LangChainStarter_initialize\<close> is the facade with the manager of this repository.
\<close>

definition LangChainStarter_initialize_with ::
  "('f ModelManager \<Rightarrow> world \<Rightarrow> bool \<times> world) \<Rightarrow> 'f LangChainStarter \<Rightarrow> world
     \<Rightarrow> (error + unit) \<times> 'f LangChainStarter \<times> world" where
  "LangChainStarter_initialize_with testConnection app w =
     (if app_initialized app
      then (Inr (), app, Logger_warn (app_logger app) ''LangChain starter already initialized'' JUndefined w)
      else
        (let w1 = Logger_info (app_logger app) ''Initializing LangChain starter...'' JUndefined w
         in case ModelManager_initialize (app_modelManager app) w1 of
              (Inl err, mm, w2) \<Rightarrow>
                (Inl err, app\<lparr> app_modelManager := mm \<rparr>,
                 Logger_error (app_logger app) ''Failed to initialize LangChain starter'' (JError err) w2)
            | (Inr _, mm, w2) \<Rightarrow>
                (case testConnection mm w2 of
                   (connectionOk, w3) \<Rightarrow>
                     if \<not> connectionOk
                     then (let err = Error ''Failed to establish connection with models''
                           in (Inl err, app\<lparr> app_modelManager := mm \<rparr>,
                               Logger_error (app_logger app) ''Failed to initialize LangChain starter''
                                 (JError err) w3))
                     else (Inr (), app\<lparr> app_modelManager := mm, app_initialized := True \<rparr>,
                           Logger_info (app_logger app) ''LangChain starter initialized successfully''
                             JUndefined w3))))"

definition LangChainStarter_initialize ::
  "'f LangChainStarter \<Rightarrow> world \<Rightarrow> (error + unit) \<times> 'f LangChainStarter \<times> world" where
  "LangChainStarter_initialize = LangChainStarter_initialize_with ModelManager_testConnection"

definition LangChainStarter_getCore :: "'f LangChainStarter \<Rightarrow> error + 'f LangChainCore" where
  "LangChainStarter_getCore app =
     (if \<not> app_initialized app
      then Inl (Error ''LangChain starter must be initialized before use'')
      else Inr (app_core app))"

definition LangChainStarter_isInitialized :: "'f LangChainStarter \<Rightarrow> bool" where
  "LangChainStarter_isInitialized app = app_initialized app"

definition LangChainStarter_reinitialize ::
  "'f LangChainStarter \<Rightarrow> world \<Rightarrow> (error + unit) \<times> 'f LangChainStarter \<times> world" where
  "LangChainStarter_reinitialize app w =
     LangChainStarter_initialize (app\<lparr> app_initialized := False \<rparr>) w"

section \<open>Compositions and reference definitions used in the statements\<close>

text \<open>\<open>(await createVectorStore(docs)).search(query, k)\<close>; \<open>None\<close> when the store is not created.\<close>

definition createVectorStore_search ::
  "'f LangChainCore \<Rightarrow> 'f ModelManager \<Rightarrow> string list \<Rightarrow> string \<Rightarrow> jsnum option \<Rightarrow> world
     \<Rightarrow> SearchResult list option" where
  "createVectorStore_search core mm docs query k w =
     (case fst (createVectorStore core mm docs w) of
        Inl err \<Rightarrow> None
      | Inr vs \<Rightarrow> Some (search vs query k))"

text \<open>\<open>(await createRAGChain(docs)).call({ query })\<close>; \<open>None\<close> when the chain is not created.\<close>

definition createRAGChain_call ::
  "'f LangChainCore \<Rightarrow> 'f ModelManager \<Rightarrow> string list \<Rightarrow> string \<Rightarrow> world
     \<Rightarrow> RAGResponse option" where
  "createRAGChain_call core mm docs query w =
     (case fst (createRAGChain core mm docs w) of
        Inl err \<Rightarrow> None
      | Inr chain \<Rightarrow> Some (rag_call chain query))"

text \<open>
  Chunking in the words of the specification: consecutive pieces of \<open>c\<close> characters, the
  last one possibly shorter, and no piece for the empty text.
\<close>

function spec_chunks :: "nat \<Rightarrow> string \<Rightarrow> string list" where
  "spec_chunks c xs =
     (if c = 0 \<or> xs = [] then [] else take c xs # spec_chunks c (drop c xs))"
  by pat_completeness auto
termination
  by (relation "measure (\<lambda>(c, xs). length xs)") auto

declare spec_chunks.simps [simp del]

text \<open>
  A concrete application for the examples: the configuration that \<open>loadConfig\<close> produces
  with \<open>CHUNK_SIZE=5\<close>, \<open>CHUNK_OVERLAP=2\<close> and \<open>LOG_LEVEL=warn\<close>. The temperature is
  kept as the text handed to \<open>parseFloat\<close>.
\<close>

definition example_env :: env where
  "example_env =
     [''OPENAI_API_KEY'' \<mapsto> ''sk-test'', ''CHUNK_SIZE'' \<mapsto> ''5'',
      ''CHUNK_OVERLAP'' \<mapsto> ''2'', ''LOG_LEVEL'' \<mapsto> ''warn'']"

definition example_config :: "string LangChainConfig" where
  "example_config =
     \<lparr> openai =
         \<lparr> apiKey = ''sk-test'', openai_model = ''gpt-3.5-turbo'',
           temperature = ''0.7'', maxTokens = Finite 1000 \<rparr>,
       embeddings =
         \<lparr> embeddings_model = ''text-embedding-ada-002'',
           chunkSize = Finite 5, chunkOverlap = Finite 2 \<rparr>,
       logging = \<lparr> level = ''warn'', enableConsole = True \<rparr> \<rparr>"

definition example_logger :: "string Logger" where
  "example_logger = \<lparr> logger_config = example_config \<rparr>"

definition example_core :: "string LangChainCore" where
  "example_core = \<lparr> core_logger = example_logger \<rparr>"

definition example_manager :: "string ModelManager" where
  "example_manager = new_ModelManager example_config example_logger"

definition ready_manager :: "string ModelManager" where
  "ready_manager = example_manager\<lparr> mm_initialized := True \<rparr>"

text \<open>The same manager with another chunk size.\<close>

definition with_chunkSize :: "jsnum \<Rightarrow> 'f ModelManager \<Rightarrow> 'f ModelManager" where
  "with_chunkSize n mm =
     mm\<lparr> mm_config := (mm_config mm)\<lparr> embeddings := (embeddings (mm_config mm))\<lparr> chunkSize := n \<rparr> \<rparr> \<rparr>"

definition with_chunkOverlap :: "jsnum \<Rightarrow> 'f ModelManager \<Rightarrow> 'f ModelManager" where
  "with_chunkOverlap n mm =
     mm\<lparr> mm_config := (mm_config mm)\<lparr> embeddings := (embeddings (mm_config mm))\<lparr> chunkOverlap := n \<rparr> \<rparr> \<rparr>"

definition example_app :: "string LangChainStarter" where
  "example_app =
     \<lparr> app_config = example_config, app_logger = example_logger,
       app_modelManager = example_manager, app_core = example_core,
       app_initialized = False \<rparr>"

text \<open>The maximum array length of the language standard, \<open>2^32 - 1\<close>.\<close>

definition standard_maxLength :: nat where
  "standard_maxLength = 4294967295"

definition empty_world :: world where
  "empty_world = \<lparr> console = [], timers = [] \<rparr>"

text \<open>A manager stand-in whose connection test fails.\<close>

definition failing_testConnection :: "'f ModelManager \<Rightarrow> world \<Rightarrow> bool \<times> world" where
  "failing_testConnection mm w = (False, w)"

section \<open>Lemmas on the library functions and the chunking loop\<close>

text \<open>The example configuration and application are what the code builds from \<open>example_env\<close>.\<close>

lemma example_config_loaded: "loadConfig (\<lambda>s. s) example_env = example_config"
  by code_simp

lemma example_app_constructed:
  "new_LangChainStarter (\<lambda>s. s) example_env None
     = (Inr example_app, Some \<lparr> cm_config = example_config \<rparr>)"
  by code_simp

lemma toUpperCase_levels:
  "toUpperCase ''debug'' = ''DEBUG''" "toUpperCase ''info'' = ''INFO''"
  "toUpperCase ''warn'' = ''WARN''" "toUpperCase ''error'' = ''ERROR''"
  by code_simp+

lemma Logger_log_timers: "timers (Logger_log lg lvl msg data w) = timers w"
  by (simp add: Logger_log_def)

lemma Logger_timers:
  "timers (Logger_debug lg msg data w) = timers w"
  "timers (Logger_info lg msg data w) = timers w"
  "timers (Logger_warn lg msg data w) = timers w"
  "timers (Logger_error lg msg data w) = timers w"
  by (simp_all add: Logger_debug_def Logger_info_def Logger_warn_def Logger_error_def
      Logger_log_timers)

lemma slice_take_drop:
  assumes "0 \<le> n" "0 \<le> c"
  shows "slice xs (Finite n) (Finite (n + c)) = take (nat c) (drop (nat n) xs)"
proof -
  consider (inside) "n + c \<le> int (length xs)"
    | (over) "n \<le> int (length xs)" "int (length xs) < n + c"
    | (beyond) "int (length xs) < n"
    by linarith
  then show ?thesis
  proof cases
    case inside
    with assms show ?thesis by (simp add: slice_def Let_def min_def)
  next
    case over
    then have "length (drop (nat n) xs) \<le> nat c" using assms by simp
    then have "take (nat c) (drop (nat n) xs) = drop (nat n) xs" by (rule take_all)
    moreover have "take (nat (int (length xs) - n)) (drop (nat n) xs) = drop (nat n) xs"
      using assms over by (intro take_all) simp
    ultimately show ?thesis using assms over by (simp add: slice_def Let_def min_def)
  next
    case beyond
    with assms show ?thesis by (simp add: slice_def Let_def min_def)
  qed
qed

lemma spec_chunks_unfold:
  "0 < c \<Longrightarrow> xs \<noteq> [] \<Longrightarrow> spec_chunks c xs = take c xs # spec_chunks c (drop c xs)"
  by (subst spec_chunks.simps) simp

lemma spec_chunks_Nil [simp]: "spec_chunks c [] = []"
  by (subst spec_chunks.simps) simp

lemma spec_chunks_nonempty:
  "0 < c \<Longrightarrow> xs \<noteq> [] \<Longrightarrow> 0 < length (spec_chunks c xs)"
  by (simp add: spec_chunks_unfold)

lemma splitText_loop_positive:
  assumes "1 \<le> c" "0 \<le> n"
    and "length acc + length (spec_chunks (nat c) (drop (nat n) tx)) \<le> maxLength"
  shows "splitText_loop maxLength tx (Finite c) (Finite n) acc
           = Inr (acc @ spec_chunks (nat c) (drop (nat n) tx))"
  using assms(2,3)
proof (induction "length tx - nat n" arbitrary: n acc rule: less_induct)
  case less
  show ?case
  proof (cases "n < int (length tx)")
    case False
    with less.prems have "drop (nat n) tx = []" by simp
    with False show ?thesis
      by (subst splitText_loop.simps) simp
  next
    case True
    with less.prems have ne: "drop (nat n) tx \<noteq> []" by simp
    have dec: "length tx - nat (n + c) < length tx - nat n"
      using True less.prems assms(1) by linarith
    have nn: "0 \<le> n + c" using less.prems assms(1) by simp
    have sl: "slice tx (Finite n) (Finite (n + c)) = take (nat c) (drop (nat n) tx)"
      using less.prems assms(1) by (simp add: slice_take_drop)
    have dd: "drop (nat (n + c)) tx = drop (nat c) (drop (nat n) tx)"
      using less.prems assms(1) by (simp add: nat_add_distrib add.commute)
    have un: "spec_chunks (nat c) (drop (nat n) tx)
        = take (nat c) (drop (nat n) tx) # spec_chunks (nat c) (drop (nat c) (drop (nat n) tx))"
      using ne assms(1) by (intro spec_chunks_unfold) simp_all
    from less.prems(2) have room: "length acc < maxLength"
      unfolding un by simp
    from less.prems(2) have fits: "length (acc @ [slice tx (Finite n) (Finite (n + c))])
        + length (spec_chunks (nat c) (drop (nat (n + c)) tx)) \<le> maxLength"
      unfolding un dd by simp
    have step: "splitText_loop maxLength tx (Finite c) (Finite (n + c))
          (acc @ [slice tx (Finite n) (Finite (n + c))])
          = Inr ((acc @ [slice tx (Finite n) (Finite (n + c))])
                   @ spec_chunks (nat c) (drop (nat (n + c)) tx))"
      by (rule less.hyps [OF dec nn fits])
    have "splitText_loop maxLength tx (Finite c) (Finite n) acc
            = splitText_loop maxLength tx (Finite c) (Finite (n + c))
                (acc @ [slice tx (Finite n) (Finite (n + c))])"
      using True room by (subst splitText_loop.simps) simp
    also note step
    also have "(acc @ [slice tx (Finite n) (Finite (n + c))])
                 @ spec_chunks (nat c) (drop (nat (n + c)) tx)
               = acc @ spec_chunks (nat c) (drop (nat n) tx)"
      unfolding sl dd un by simp
    finally show ?thesis .
  qed
qed

lemma splitText_loop_overflow:
  assumes "1 \<le> c" "0 \<le> n" "length acc \<le> maxLength"
    and "maxLength < length acc + length (spec_chunks (nat c) (drop (nat n) tx))"
  shows "splitText_loop maxLength tx (Finite c) (Finite n) acc
           = Inl (RangeError ''Invalid array length'')"
  using assms(2,3,4)
proof (induction "maxLength - length acc" arbitrary: n acc rule: less_induct)
  case less
  from less.prems(2,3) have "spec_chunks (nat c) (drop (nat n) tx) \<noteq> []" by auto
  then have ne: "drop (nat n) tx \<noteq> []" by auto
  with less.prems(1) have lt: "n < int (length tx)" by simp
  show ?case
  proof (cases "length acc < maxLength")
    case False
    with lt show ?thesis by (subst splitText_loop.simps) simp
  next
    case True
    have nn: "0 \<le> n + c" using less.prems assms(1) by simp
    have dd: "drop (nat (n + c)) tx = drop (nat c) (drop (nat n) tx)"
      using less.prems assms(1) by (simp add: nat_add_distrib add.commute)
    have un: "spec_chunks (nat c) (drop (nat n) tx)
        = take (nat c) (drop (nat n) tx) # spec_chunks (nat c) (drop (nat c) (drop (nat n) tx))"
      using ne assms(1) by (intro spec_chunks_unfold) simp_all
    let ?acc = "acc @ [slice tx (Finite n) (Finite (n + c))]"
    have dec: "maxLength - length ?acc < maxLength - length acc" using True by simp
    have le: "length ?acc \<le> maxLength" using True by simp
    from less.prems(3) have over: "maxLength < length ?acc
        + length (spec_chunks (nat c) (drop (nat (n + c)) tx))"
      unfolding un dd by simp
    have "splitText_loop maxLength tx (Finite c) (Finite n) acc
            = splitText_loop maxLength tx (Finite c) (Finite (n + c)) ?acc"
      using lt True by (subst splitText_loop.simps) simp
    also have "\<dots> = Inl (RangeError ''Invalid array length'')"
      by (rule less.hyps [OF dec nn le over])
    finally show ?thesis .
  qed
qed

lemma splitText_loop_nonpositive:
  assumes "c \<le> 0" "n \<le> 0" "tx \<noteq> []"
  shows "splitText_loop maxLength tx (Finite c) (Finite n) acc
           = Inl (RangeError ''Invalid array length'')"
  using assms(2)
proof (induction "maxLength - length acc" arbitrary: n acc rule: less_induct)
  case less
  from assms(3) have "0 < length tx" by simp
  with less.prems have lt: "n < int (length tx)" by linarith
  show ?case
  proof (cases "length acc < maxLength")
    case False
    with lt show ?thesis by (subst splitText_loop.simps) simp
  next
    case True
    let ?acc = "acc @ [slice tx (Finite n) (Finite (n + c))]"
    have dec: "maxLength - length ?acc < maxLength - length acc" using True by simp
    have nn: "n + c \<le> 0" using less.prems assms(1) by simp
    have "splitText_loop maxLength tx (Finite c) (Finite n) acc
            = splitText_loop maxLength tx (Finite c) (Finite (n + c)) ?acc"
      using lt True by (subst splitText_loop.simps) simp
    also have "\<dots> = Inl (RangeError ''Invalid array length'')"
      by (rule less.hyps [OF dec nn])
    finally show ?thesis .
  qed
qed

lemma splitText_loop_empty:
  "splitText_loop maxLength [] cs (Finite 0) [] = Inr []"
  by (subst splitText_loop.simps) (cases cs; simp)

lemma splitText_loop_NaN:
  assumes "tx \<noteq> []" "0 < maxLength"
  shows "splitText_loop maxLength tx NaN (Finite 0) [] = Inr [[]]"
proof -
  from assms(1) have "0 < length tx" by simp
  then have "splitText_loop maxLength tx NaN (Finite 0) []
      = splitText_loop maxLength tx NaN NaN [slice tx (Finite 0) NaN]"
    using assms(2) by (subst splitText_loop.simps) simp
  also have "\<dots> = Inr [slice tx (Finite 0) NaN]"
    by (subst splitText_loop.simps) simp
  also have "slice tx (Finite 0) NaN = []"
    by (simp add: slice_def)
  finally show ?thesis .
qed

lemma concat_spec_chunks: "0 < c \<Longrightarrow> concat (spec_chunks c xs) = xs"
proof (induction c xs rule: spec_chunks.induct)
  case (1 c xs)
  show ?case
  proof (cases "xs = []")
    case True then show ?thesis by simp
  next
    case False
    with "1.prems" have un: "spec_chunks c xs = take c xs # spec_chunks c (drop c xs)"
      by (intro spec_chunks_unfold)
    from "1.IH" False "1.prems" have "concat (spec_chunks c (drop c xs)) = drop c xs" by simp
    then show ?thesis unfolding un by simp
  qed
qed

lemma spec_chunks_nth:
  "0 < c \<Longrightarrow> j < length (spec_chunks c xs) \<Longrightarrow> spec_chunks c xs ! j = take c (drop (j * c) xs)"
proof (induction c xs arbitrary: j rule: spec_chunks.induct)
  case (1 c xs)
  show ?case
  proof (cases "xs = []")
    case True with "1.prems" show ?thesis by simp
  next
    case False
    with "1.prems" have un: "spec_chunks c xs = take c xs # spec_chunks c (drop c xs)"
      by (intro spec_chunks_unfold)
    show ?thesis
    proof (cases j)
      case 0
      then show ?thesis unfolding un by simp
    next
      case (Suc k)
      with "1.prems"(2) have "k < length (spec_chunks c (drop c xs))"
        unfolding un by simp
      with "1.IH" False "1.prems"(1)
      have "spec_chunks c (drop c xs) ! k = take c (drop (k * c) (drop c xs))"
        by simp
      with Suc show ?thesis unfolding un by (simp add: add.commute)
    qed
  qed
qed

lemma ceil_div_step:
  fixes c n :: nat
  assumes "0 < c" "c \<le> n"
  shows "(n + c - 1) div c = Suc ((n - c + c - 1) div c)"
proof -
  have "n + c - 1 = (n - 1) + c" using assms by simp
  then have "(n + c - 1) div c = Suc ((n - 1) div c)"
    using assms(1) by (simp only: div_add_self2)
  moreover have "n - c + c - 1 = n - 1" using assms by simp
  ultimately show ?thesis by (simp only:)
qed

lemma ceil_div_small:
  fixes c n :: nat
  assumes "0 < n" "n \<le> c"
  shows "(n + c - 1) div c = 1"
proof -
  have "n + c - 1 = (n - 1) + c" using assms by simp
  moreover have "(n - 1) div c = 0" using assms by simp
  ultimately show ?thesis using assms by (simp only: div_add_self2)
qed

lemma length_spec_chunks:
  "0 < c \<Longrightarrow> length (spec_chunks c xs) = (length xs + c - 1) div c"
proof (induction c xs rule: spec_chunks.induct)
  case (1 c xs)
  show ?case
  proof (cases "xs = []")
    case True with "1.prems" show ?thesis by simp
  next
    case False
    then have pos: "0 < length xs" by simp
    have un: "spec_chunks c xs = take c xs # spec_chunks c (drop c xs)"
      by (rule spec_chunks_unfold [OF "1.prems" False])
    have ih: "length (spec_chunks c (drop c xs)) = (length xs - c + c - 1) div c"
      using "1.IH" False "1.prems" by simp
    show ?thesis
    proof (cases "c \<le> length xs")
      case True
      from ceil_div_step [OF "1.prems" True] ih show ?thesis
        unfolding un by (simp only: list.size length_Cons)
    next
      case big: False
      with pos have "(length xs + c - 1) div c = 1" by (intro ceil_div_small) simp_all
      moreover from big have "drop c xs = []" by simp
      ultimately show ?thesis unfolding un by simp
    qed
  qed
qed

lemma spec_chunks_lengths:
  "0 < c \<Longrightarrow> ch \<in> set (spec_chunks c xs) \<Longrightarrow> 0 < length ch \<and> length ch \<le> c"
proof (induction c xs rule: spec_chunks.induct)
  case (1 c xs)
  show ?case
  proof (cases "xs = []")
    case True with "1.prems" show ?thesis by simp
  next
    case False
    with "1.prems" have un: "spec_chunks c xs = take c xs # spec_chunks c (drop c xs)"
      by (intro spec_chunks_unfold)
    from "1.prems"(2) consider "ch = take c xs" | "ch \<in> set (spec_chunks c (drop c xs))"
      unfolding un by auto
    then show ?thesis
    proof cases
      case 1
      with False "1.prems"(1) show ?thesis by simp
    next
      case 2
      with "1.IH" False "1.prems"(1) show ?thesis by simp
    qed
  qed
qed

lemma spec_chunks_butlast:
  "0 < c \<Longrightarrow> ch \<in> set (butlast (spec_chunks c xs)) \<Longrightarrow> length ch = c"
proof (induction c xs rule: spec_chunks.induct)
  case (1 c xs)
  show ?case
  proof (cases "xs = []")
    case True with "1.prems" show ?thesis by simp
  next
    case False
    with "1.prems" have un: "spec_chunks c xs = take c xs # spec_chunks c (drop c xs)"
      by (intro spec_chunks_unfold)
    show ?thesis
    proof (cases "spec_chunks c (drop c xs) = []")
      case True
      with "1.prems"(2) show ?thesis unfolding un by simp
    next
      case ne: False
      then have "drop c xs \<noteq> []" by auto
      then have long: "c < length xs" by simp
      from "1.prems"(2) ne consider "ch = take c xs" | "ch \<in> set (butlast (spec_chunks c (drop c xs)))"
        unfolding un by auto
      then show ?thesis
      proof cases
        case 1
        with long show ?thesis by simp
      next
        case 2
        with "1.IH" False "1.prems"(1) show ?thesis by simp
      qed
    qed
  qed
qed

section \<open>Logger: the severity filter\<close>

text \<open>
  C3. With a configured threshold among debug, info, warn and error, each of the four
  Logger methods appends exactly one line to the console when console logging is
  enabled and the rank of its severity is at least the rank of the threshold
  (debug < info < warn < error), and leaves the world unchanged otherwise; this holds
  for every message and every data argument.
\<close>

theorem Logger_emits_iff:
  assumes "level (logging (logger_config lg)) \<in> {''debug'', ''info'', ''warn'', ''error''}"
  shows "Logger_debug lg msg data w =
           (if enableConsole (logging (logger_config lg))
               \<and> spec_rank ''debug'' \<ge> spec_rank (level (logging (logger_config lg)))
            then w\<lparr> console := console w @
                   [\<lparr> tag = ''DEBUG'', message = msg,
                      extra = (if truthy data then Some data else None) \<rparr>] \<rparr>
            else w)
       \<and> Logger_info lg msg data w =
           (if enableConsole (logging (logger_config lg))
               \<and> spec_rank ''info'' \<ge> spec_rank (level (logging (logger_config lg)))
            then w\<lparr> console := console w @
                   [\<lparr> tag = ''INFO'', message = msg,
                      extra = (if truthy data then Some data else None) \<rparr>] \<rparr>
            else w)
       \<and> Logger_warn lg msg data w =
           (if enableConsole (logging (logger_config lg))
               \<and> spec_rank ''warn'' \<ge> spec_rank (level (logging (logger_config lg)))
            then w\<lparr> console := console w @
                   [\<lparr> tag = ''WARN'', message = msg,
                      extra = (if truthy data then Some data else None) \<rparr>] \<rparr>
            else w)
       \<and> Logger_error lg msg data w =
           (if enableConsole (logging (logger_config lg))
               \<and> spec_rank ''error'' \<ge> spec_rank (level (logging (logger_config lg)))
            then w\<lparr> console := console w @
                   [\<lparr> tag = ''ERROR'', message = msg,
                      extra = (if truthy data then Some data else None) \<rparr>] \<rparr>
            else w)"
proof -
  from assms consider
      (d) "level (logging (logger_config lg)) = ''debug''"
    | (i) "level (logging (logger_config lg)) = ''info''"
    | (w) "level (logging (logger_config lg)) = ''warn''"
    | (e) "level (logging (logger_config lg)) = ''error''"
    by auto
  then show ?thesis
    by cases
      (simp_all add: Logger_debug_def Logger_info_def Logger_warn_def Logger_error_def
        Logger_shouldLog_def Logger_log_def spec_rank_def toUpperCase_levels)
qed

text \<open>The example logger has threshold warn: an info call is silent, an error call writes a line.\<close>

theorem Logger_emits_iff_witness:
  "level (logging (logger_config example_logger)) \<in> {''debug'', ''info'', ''warn'', ''error''}
   \<and> Logger_info example_logger ''m'' JUndefined empty_world = empty_world
   \<and> Logger_error example_logger ''m'' JUndefined empty_world
       = \<lparr> console = [\<lparr> tag = ''ERROR'', message = ''m'', extra = None \<rparr>], timers = [] \<rparr>"
  using Logger_emits_iff [of example_logger "''m''" JUndefined empty_world]
  by (simp add: example_logger_def example_config_def spec_rank_def empty_world_def)

section \<open>ConfigManager\<close>

lemma parseInt_defaults: "parseInt ''1000'' = Finite 1000" "parseInt ''200'' = Finite 200"
  by code_simp+

text \<open>
  C2. The first \<open>getInstance\<close> (empty static slot) fails if and only if the resolved API
  key, \<open>OPENAI_API_KEY\<close> or the empty string when unset, is empty, and it fails with the
  validation error, leaving the slot empty. With a non-empty key it returns the new
  manager and stores it in the slot; the stored key is the variable's value, and every
  other setting whose variable is unset has its documented default.
\<close>

theorem getInstance_fails_iff_key_empty:
  "((\<exists>err. fst (ConfigManager_getInstance parseFloat e None) = Inl err)
      \<longleftrightarrow> (case e ''OPENAI_API_KEY'' of None \<Rightarrow> [] | Some v \<Rightarrow> v) = [])
   \<and> ((case e ''OPENAI_API_KEY'' of None \<Rightarrow> [] | Some v \<Rightarrow> v) = [] \<longrightarrow>
        ConfigManager_getInstance parseFloat e None
          = (Inl (Error ''OPENAI_API_KEY environment variable is required''), None))
   \<and> ((case e ''OPENAI_API_KEY'' of None \<Rightarrow> [] | Some v \<Rightarrow> v) \<noteq> [] \<longrightarrow>
        (\<exists>cm. ConfigManager_getInstance parseFloat e None = (Inr cm, Some cm)
           \<and> e ''OPENAI_API_KEY'' = Some (apiKey (openai (ConfigManager_getConfig cm)))
           \<and> (e ''OPENAI_MODEL'' = None \<longrightarrow>
                 openai_model (openai (ConfigManager_getConfig cm)) = ''gpt-3.5-turbo'')
           \<and> (e ''OPENAI_TEMPERATURE'' = None \<longrightarrow>
                 temperature (openai (ConfigManager_getConfig cm)) = parseFloat ''0.7'')
           \<and> (e ''OPENAI_MAX_TOKENS'' = None \<longrightarrow>
                 maxTokens (openai (ConfigManager_getConfig cm)) = Finite 1000)
           \<and> (e ''EMBEDDING_MODEL'' = None \<longrightarrow>
                 embeddings_model (embeddings (ConfigManager_getConfig cm)) = ''text-embedding-ada-002'')
           \<and> (e ''CHUNK_SIZE'' = None \<longrightarrow>
                 chunkSize (embeddings (ConfigManager_getConfig cm)) = Finite 1000)
           \<and> (e ''CHUNK_OVERLAP'' = None \<longrightarrow>
                 chunkOverlap (embeddings (ConfigManager_getConfig cm)) = Finite 200)
           \<and> (e ''LOG_LEVEL'' = None \<longrightarrow>
                 level (logging (ConfigManager_getConfig cm)) = ''info'')
           \<and> (e ''ENABLE_CONSOLE_LOGGING'' = None \<longrightarrow>
                 enableConsole (logging (ConfigManager_getConfig cm)))))"
proof (cases "(case e ''OPENAI_API_KEY'' of None \<Rightarrow> [] | Some v \<Rightarrow> v) = []")
  case True
  then have "env_or e ''OPENAI_API_KEY'' [] = []"
    by (simp add: env_or_def split: option.splits)
  then have "ConfigManager_getInstance parseFloat e None
          = (Inl (Error ''OPENAI_API_KEY environment variable is required''), None)"
    by (simp add: ConfigManager_getInstance_def new_ConfigManager_def validateConfig_def
        loadConfig_def)
  with True show ?thesis by simp
next
  case False
  then obtain v where v: "e ''OPENAI_API_KEY'' = Some v" "v \<noteq> []"
    by (auto split: option.splits)
  then have key: "env_or e ''OPENAI_API_KEY'' [] = v"
    by (simp add: env_or_def)
  let ?cm = "\<lparr> cm_config = loadConfig parseFloat e \<rparr>"
  have inst: "ConfigManager_getInstance parseFloat e None = (Inr ?cm, Some ?cm)"
    using key v
    by (simp add: ConfigManager_getInstance_def new_ConfigManager_def validateConfig_def
        loadConfig_def)
  have fields:
    "e ''OPENAI_API_KEY'' = Some (apiKey (openai (ConfigManager_getConfig ?cm)))"
    "e ''OPENAI_MODEL'' = None \<longrightarrow>
       openai_model (openai (ConfigManager_getConfig ?cm)) = ''gpt-3.5-turbo''"
    "e ''OPENAI_TEMPERATURE'' = None \<longrightarrow>
       temperature (openai (ConfigManager_getConfig ?cm)) = parseFloat ''0.7''"
    "e ''OPENAI_MAX_TOKENS'' = None \<longrightarrow>
       maxTokens (openai (ConfigManager_getConfig ?cm)) = Finite 1000"
    "e ''EMBEDDING_MODEL'' = None \<longrightarrow>
       embeddings_model (embeddings (ConfigManager_getConfig ?cm)) = ''text-embedding-ada-002''"
    "e ''CHUNK_SIZE'' = None \<longrightarrow>
       chunkSize (embeddings (ConfigManager_getConfig ?cm)) = Finite 1000"
    "e ''CHUNK_OVERLAP'' = None \<longrightarrow>
       chunkOverlap (embeddings (ConfigManager_getConfig ?cm)) = Finite 200"
    "e ''LOG_LEVEL'' = None \<longrightarrow> level (logging (ConfigManager_getConfig ?cm)) = ''info''"
    "e ''ENABLE_CONSOLE_LOGGING'' = None \<longrightarrow> enableConsole (logging (ConfigManager_getConfig ?cm))"
    using key v
    by (simp_all add: ConfigManager_getConfig_def loadConfig_def env_or_def parseInt_defaults)
  from False inst fields show ?thesis
    by (intro conjI impI exI [of _ ?cm]) simp_all
qed

text \<open>
  With only the key set, the configuration is the table of defaults; with no variable
  set, construction fails.
\<close>

theorem getInstance_fails_iff_key_empty_witness:
  "(\<not> (\<exists>err. fst (ConfigManager_getInstance (\<lambda>s. s) [''OPENAI_API_KEY'' \<mapsto> ''sk-test''] None) = Inl err))
   \<and> fst (ConfigManager_getInstance (\<lambda>s. s) [''OPENAI_API_KEY'' \<mapsto> ''sk-test''] None)
       = Inr \<lparr> cm_config =
           \<lparr> openai =
               \<lparr> apiKey = ''sk-test'', openai_model = ''gpt-3.5-turbo'',
                 temperature = ''0.7'', maxTokens = Finite 1000 \<rparr>,
             embeddings =
               \<lparr> embeddings_model = ''text-embedding-ada-002'',
                 chunkSize = Finite 1000, chunkOverlap = Finite 200 \<rparr>,
             logging = \<lparr> level = ''info'', enableConsole = True \<rparr> \<rparr> \<rparr>
   \<and> fst (ConfigManager_getInstance (\<lambda>s. s) Map.empty None)
       = Inl (Error ''OPENAI_API_KEY environment variable is required'')"
  using getInstance_fails_iff_key_empty [of "\<lambda>s. s" "[''OPENAI_API_KEY'' \<mapsto> ''sk-test'']"]
    getInstance_fails_iff_key_empty [of "\<lambda>s::string. s" "Map.empty"]
  by (auto simp: ConfigManager_getConfig_def)

text \<open>
  C9. \<open>updateConfig\<close> is not atomic. When it throws, the error is the validation error
  and the manager already holds the merged record: \<open>getConfig\<close> returns the shallow merge,
  whose API key is empty. If the configuration was valid before the call, the record
  returned afterwards differs from it, and the partial carried an \<open>openai\<close> section with
  an empty key that replaced the whole section.
\<close>

theorem updateConfig_not_atomic:
  assumes "ConfigManager_updateConfig cm newConfig = (Inl err, cm')"
  shows "err = Error ''OPENAI_API_KEY environment variable is required''
       \<and> ConfigManager_getConfig cm' = spread (ConfigManager_getConfig cm) newConfig
       \<and> apiKey (openai (ConfigManager_getConfig cm')) = []
       \<and> (apiKey (openai (ConfigManager_getConfig cm)) \<noteq> [] \<longrightarrow>
            ConfigManager_getConfig cm' \<noteq> ConfigManager_getConfig cm
            \<and> (\<exists>sec. p_openai newConfig = Some sec \<and> apiKey sec = []
                      \<and> openai (ConfigManager_getConfig cm') = sec))"
proof -
  from assms have cm': "cm' = cm\<lparr> cm_config := spread (cm_config cm) newConfig \<rparr>"
    and v: "validateConfig cm' = Inl err"
    by (auto simp: ConfigManager_updateConfig_def Let_def)
  from v have err: "err = Error ''OPENAI_API_KEY environment variable is required''"
    and key: "apiKey (openai (cm_config cm')) = []"
    by (auto simp: validateConfig_def split: if_splits)
  from cm' have cfg: "cm_config cm' = spread (cm_config cm) newConfig" by simp
  have last: "cm_config cm' \<noteq> cm_config cm
      \<and> (\<exists>sec. p_openai newConfig = Some sec \<and> apiKey sec = [] \<and> openai (cm_config cm') = sec)"
    if valid: "apiKey (openai (cm_config cm)) \<noteq> []"
  proof (cases "p_openai newConfig")
    case None
    with cfg have "openai (cm_config cm') = openai (cm_config cm)" by (simp add: spread_def)
    with key valid show ?thesis by simp
  next
    case (Some sec)
    with cfg have sec: "openai (cm_config cm') = sec" by (simp add: spread_def)
    with key have "apiKey sec = []" by simp
    moreover from key valid have "cm_config cm' \<noteq> cm_config cm" by auto
    ultimately show ?thesis using Some sec by simp
  qed
  from err key cfg last show ?thesis
    by (simp add: ConfigManager_getConfig_def)
qed

text \<open>An update of the example configuration with an \<open>openai\<close> section that has no key.\<close>

theorem updateConfig_not_atomic_witness:
  "ConfigManager_updateConfig \<lparr> cm_config = example_config \<rparr>
      \<lparr> p_openai = Some \<lparr> apiKey = [], openai_model = ''gpt-4'',
                           temperature = ''0.2'', maxTokens = Finite 50 \<rparr>,
        p_embeddings = None, p_logging = None \<rparr>
    = (Inl (Error ''OPENAI_API_KEY environment variable is required''),
       \<lparr> cm_config = example_config
           \<lparr> openai := \<lparr> apiKey = [], openai_model = ''gpt-4'',
                         temperature = ''0.2'', maxTokens = Finite 50 \<rparr> \<rparr> \<rparr>)
   \<and> apiKey (openai (ConfigManager_getConfig \<lparr> cm_config = example_config
           \<lparr> openai := \<lparr> apiKey = [], openai_model = ''gpt-4'',
                         temperature = ''0.2'', maxTokens = Finite 50 \<rparr> \<rparr> \<rparr>)) = []
   \<and> ConfigManager_getConfig \<lparr> cm_config = example_config
           \<lparr> openai := \<lparr> apiKey = [], openai_model = ''gpt-4'',
                         temperature = ''0.2'', maxTokens = Finite 50 \<rparr> \<rparr> \<rparr>
       \<noteq> ConfigManager_getConfig \<lparr> cm_config = example_config \<rparr>"
proof -
  have run: "ConfigManager_updateConfig \<lparr> cm_config = example_config \<rparr>
      \<lparr> p_openai = Some \<lparr> apiKey = [], openai_model = ''gpt-4'',
                           temperature = ''0.2'', maxTokens = Finite 50 \<rparr>,
        p_embeddings = None, p_logging = None \<rparr>
    = (Inl (Error ''OPENAI_API_KEY environment variable is required''),
       \<lparr> cm_config = example_config
           \<lparr> openai := \<lparr> apiKey = [], openai_model = ''gpt-4'',
                         temperature = ''0.2'', maxTokens = Finite 50 \<rparr> \<rparr> \<rparr>)"
    by (simp add: ConfigManager_updateConfig_def validateConfig_def spread_def example_config_def)
  have valid: "apiKey (openai (ConfigManager_getConfig \<lparr> cm_config = example_config \<rparr>)) \<noteq> []"
    by (simp add: ConfigManager_getConfig_def example_config_def)
  from updateConfig_not_atomic [OF run] valid run show ?thesis by blast
qed

section \<open>ModelManager: initialization\<close>

lemma Logger_warn_emits:
  assumes "enableConsole (logging (logger_config lg))"
    and "level (logging (logger_config lg)) \<in> {''debug'', ''info'', ''warn''}"
  shows "Logger_warn lg msg JUndefined w
           = w\<lparr> console := console w @ [\<lparr> tag = ''WARN'', message = msg, extra = None \<rparr>] \<rparr>"
  using assms
  by (auto simp: Logger_warn_def Logger_shouldLog_def Logger_log_def toUpperCase_levels)

lemma ModelManager_initialize_fresh:
  assumes "\<not> mm_initialized mm"
  shows "ModelManager_initialize mm w =
           (Inr (), mm\<lparr> mm_initialized := True \<rparr>,
            Logger_info (mm_logger mm) ''ModelManager initialized successfully'' JUndefined
              (Logger_debug (mm_logger mm) ''Model initialization simulated'' JUndefined
                ((Logger_info (mm_logger mm) ''Initializing ModelManager...'' JUndefined w)
                   \<lparr> timers := timers (Logger_info (mm_logger mm) ''Initializing ModelManager...'' JUndefined w) @ [100] \<rparr>)))"
  using assms by (simp add: ModelManager_initialize_def simulateInitialization_def Let_def)

lemma ModelManager_initialize_again:
  assumes "mm_initialized mm"
  shows "ModelManager_initialize mm w =
           (Inr (), mm, Logger_warn (mm_logger mm) ''ModelManager already initialized'' JUndefined w)"
  using assms by (simp add: ModelManager_initialize_def)

lemma ModelManager_initialize_succeeds:
  "\<exists>w'. ModelManager_initialize mm w = (Inr (), mm\<lparr> mm_initialized := True \<rparr>, w')"
proof (cases "mm_initialized mm")
  case True
  then have "mm\<lparr> mm_initialized := True \<rparr> = mm" by simp
  with True show ?thesis by (simp add: ModelManager_initialize_again)
next
  case False
  then show ?thesis by (simp add: ModelManager_initialize_fresh)
qed

text \<open>
  C7. \<open>ModelManager.initialize\<close> is idempotent. From the uninitialized state, two calls
  in succession both succeed; the first requests the one delay of 100 ms and sets the
  flag, the second requests no delay, leaves the manager as the first call left it, and
  does nothing but call \<open>Logger.warn\<close> with "ModelManager already initialized", which
  writes the line whenever the console is enabled and the threshold lets warnings
  through.
\<close>

theorem ModelManager_initialize_idempotent:
  assumes fresh: "\<not> mm_initialized mm"
    and first: "ModelManager_initialize mm w = (r1, mm1, w1)"
    and second: "ModelManager_initialize mm1 w1 = (r2, mm2, w2)"
  shows "r1 = Inr () \<and> r2 = Inr ()
       \<and> mm1 = mm\<lparr> mm_initialized := True \<rparr> \<and> mm2 = mm1
       \<and> timers w1 = timers w @ [100] \<and> timers w2 = timers w1
       \<and> w2 = Logger_warn (mm_logger mm) ''ModelManager already initialized'' JUndefined w1
       \<and> (enableConsole (logging (logger_config (mm_logger mm)))
            \<and> level (logging (logger_config (mm_logger mm))) \<in> {''debug'', ''info'', ''warn''}
          \<longrightarrow> console w2 = console w1 @
                [\<lparr> tag = ''WARN'', message = ''ModelManager already initialized'', extra = None \<rparr>])"
proof -
  from first have r1: "r1 = Inr ()" and mm1: "mm1 = mm\<lparr> mm_initialized := True \<rparr>"
    and w1: "w1 = Logger_info (mm_logger mm) ''ModelManager initialized successfully'' JUndefined
              (Logger_debug (mm_logger mm) ''Model initialization simulated'' JUndefined
                ((Logger_info (mm_logger mm) ''Initializing ModelManager...'' JUndefined w)
                   \<lparr> timers := timers (Logger_info (mm_logger mm) ''Initializing ModelManager...'' JUndefined w) @ [100] \<rparr>))"
    unfolding ModelManager_initialize_fresh [OF fresh] by simp_all
  from mm1 have init1: "mm_initialized mm1" and lg1: "mm_logger mm1 = mm_logger mm" by simp_all
  from second have r2: "r2 = Inr ()" and mm2: "mm2 = mm1"
    and w2: "w2 = Logger_warn (mm_logger mm) ''ModelManager already initialized'' JUndefined w1"
    unfolding ModelManager_initialize_again [OF init1] lg1 by simp_all
  have t1: "timers w1 = timers w @ [100]"
    unfolding w1 by (simp add: Logger_timers)
  have t2: "timers w2 = timers w1"
    unfolding w2 by (simp add: Logger_timers)
  have line: "console w2 = console w1 @
      [\<lparr> tag = ''WARN'', message = ''ModelManager already initialized'', extra = None \<rparr>]"
    if "enableConsole (logging (logger_config (mm_logger mm)))
        \<and> level (logging (logger_config (mm_logger mm))) \<in> {''debug'', ''info'', ''warn''}"
    using that unfolding w2 by (simp add: Logger_warn_emits)
  from r1 r2 mm1 mm2 t1 t2 w2 line show ?thesis by blast
qed

text \<open>The example manager (threshold warn): two calls, one delay, one warning line.\<close>

theorem ModelManager_initialize_idempotent_witness:
  "\<not> mm_initialized example_manager
   \<and> ModelManager_initialize example_manager empty_world
       = (Inr (), ready_manager, \<lparr> console = [], timers = [100] \<rparr>)
   \<and> ModelManager_initialize ready_manager \<lparr> console = [], timers = [100] \<rparr>
       = (Inr (), ready_manager,
          \<lparr> console = [\<lparr> tag = ''WARN'', message = ''ModelManager already initialized'',
                         extra = None \<rparr>],
            timers = [100] \<rparr>)"
proof -
  have fresh: "\<not> mm_initialized example_manager"
    by (simp add: example_manager_def new_ModelManager_def)
  obtain r1 mm1 w1 where first: "ModelManager_initialize example_manager empty_world = (r1, mm1, w1)"
    by (cases "ModelManager_initialize example_manager empty_world") auto
  obtain r2 mm2 w2 where second: "ModelManager_initialize mm1 w1 = (r2, mm2, w2)"
    by (cases "ModelManager_initialize mm1 w1") auto
  note th = ModelManager_initialize_idempotent [OF fresh first second]
  have lg: "mm_logger example_manager = example_logger"
    by (simp add: example_manager_def new_ModelManager_def)
  have cfg: "enableConsole (logging (logger_config example_logger))"
    "level (logging (logger_config example_logger)) = ''warn''"
    by (simp_all add: example_logger_def example_config_def)
  have silent: "Logger_info example_logger m JUndefined v = v"
    "Logger_debug example_logger m JUndefined v = v" for m v
    by (simp_all add: Logger_info_def Logger_debug_def Logger_shouldLog_def cfg)
  have w1: "w1 = \<lparr> console = [], timers = [100] \<rparr>"
    using first fresh
    by (simp add: ModelManager_initialize_fresh lg silent empty_world_def)
  from th have "mm1 = example_manager\<lparr> mm_initialized := True \<rparr>" by blast
  then have mm1: "mm1 = ready_manager" by (simp add: ready_manager_def)
  from th have "enableConsole (logging (logger_config (mm_logger example_manager)))
            \<and> level (logging (logger_config (mm_logger example_manager))) \<in> {''debug'', ''info'', ''warn''}
          \<longrightarrow> console w2 = console w1 @
                [\<lparr> tag = ''WARN'', message = ''ModelManager already initialized'', extra = None \<rparr>]"
    by blast
  with cfg lg have "console w2 = console w1 @
      [\<lparr> tag = ''WARN'', message = ''ModelManager already initialized'', extra = None \<rparr>]"
    by simp
  moreover from th have "timers w2 = timers w1" by blast
  ultimately have w2: "w2 = \<lparr> console = [\<lparr> tag = ''WARN'',
      message = ''ModelManager already initialized'', extra = None \<rparr>], timers = [100] \<rparr>"
    using w1 by (cases w2) simp
  from th have "r1 = Inr ()" "r2 = Inr ()" "mm2 = mm1" by blast+
  with fresh first second mm1 w1 w2 show ?thesis by simp
qed

section \<open>LangChainStarter: a failed connection test\<close>

text \<open>The connection test of this repository's manager always reports success.\<close>

lemma ModelManager_testConnection_true: "fst (ModelManager_testConnection mm w) = True"
  by (simp add: ModelManager_testConnection_def sleep_def Let_def)

text \<open>So the facade of this repository, started uninitialized, always initializes.\<close>

lemma LangChainStarter_initialize_succeeds:
  assumes "\<not> app_initialized app"
  shows "\<exists>app' w'. LangChainStarter_initialize app w = (Inr (), app', w') \<and> app_initialized app'"
proof -
  obtain w2 where m: "ModelManager_initialize (app_modelManager app)
      (Logger_info (app_logger app) ''Initializing LangChain starter...'' JUndefined w)
      = (Inr (), (app_modelManager app)\<lparr> mm_initialized := True \<rparr>, w2)"
    using ModelManager_initialize_succeeds by blast
  obtain ok w3 where t: "ModelManager_testConnection ((app_modelManager app)\<lparr> mm_initialized := True \<rparr>) w2
      = (ok, w3)"
    by (cases "ModelManager_testConnection ((app_modelManager app)\<lparr> mm_initialized := True \<rparr>) w2") auto
  with ModelManager_testConnection_true [of "(app_modelManager app)\<lparr> mm_initialized := True \<rparr>" w2]
  have ok by simp
  with assms m t show ?thesis
    by (simp add: LangChainStarter_initialize_def LangChainStarter_initialize_with_def Let_def)
qed

text \<open>
  C6. Take a facade that is not yet initialized and a manager whose \<open>testConnection\<close>
  returns false when \<open>initialize\<close> calls it (after the manager's own initialization).
  Then \<open>initialize\<close> fails with the "Failed to establish connection with models" error,
  the facade's flag is still false, and \<open>getCore\<close> afterwards fails with the
  "must be initialized before use" error.
\<close>

theorem LangChainStarter_initialize_connection_failed:
  assumes fresh: "\<not> app_initialized app"
    and manager: "ModelManager_initialize (app_modelManager app)
                    (Logger_info (app_logger app) ''Initializing LangChain starter...'' JUndefined w)
                  = (r, mm, w2)"
    and failed: "fst (testConnection mm w2) = False"
    and run: "LangChainStarter_initialize_with testConnection app w = (res, app', w')"
  shows "res = Inl (Error ''Failed to establish connection with models'')
       \<and> \<not> app_initialized app'
       \<and> \<not> LangChainStarter_isInitialized app'
       \<and> LangChainStarter_getCore app' = Inl (Error ''LangChain starter must be initialized before use'')"
proof -
  from ModelManager_initialize_succeeds [of "app_modelManager app"
      "Logger_info (app_logger app) ''Initializing LangChain starter...'' JUndefined w"] manager
  have r: "r = Inr ()" by auto
  obtain ok w3 where tc: "testConnection mm w2 = (ok, w3)"
    by (cases "testConnection mm w2") auto
  with failed have ok: "\<not> ok" by simp
  from run fresh manager r tc ok
  have res: "res = Inl (Error ''Failed to establish connection with models'')"
    and app': "app' = app\<lparr> app_modelManager := mm \<rparr>"
    by (simp_all add: LangChainStarter_initialize_with_def Let_def)
  from app' fresh have "\<not> app_initialized app'" by simp
  with res show ?thesis
    by (simp add: LangChainStarter_getCore_def LangChainStarter_isInitialized_def)
qed

text \<open>The example application with the failing stand-in for the connection test.\<close>

theorem LangChainStarter_initialize_connection_failed_witness:
  "\<not> app_initialized example_app
   \<and> ModelManager_initialize (app_modelManager example_app)
        (Logger_info (app_logger example_app) ''Initializing LangChain starter...'' JUndefined empty_world)
      = (Inr (), ready_manager, \<lparr> console = [], timers = [100] \<rparr>)
   \<and> fst (failing_testConnection ready_manager \<lparr> console = [], timers = [100] \<rparr>) = False
   \<and> fst (LangChainStarter_initialize_with failing_testConnection example_app empty_world)
       = Inl (Error ''Failed to establish connection with models'')
   \<and> LangChainStarter_getCore
        (fst (snd (LangChainStarter_initialize_with failing_testConnection example_app empty_world)))
       = Inl (Error ''LangChain starter must be initialized before use'')"
proof -
  have fresh: "\<not> app_initialized example_app"
    by (simp add: example_app_def)
  have cfg: "enableConsole (logging (logger_config example_logger))"
    "level (logging (logger_config example_logger)) = ''warn''"
    by (simp_all add: example_logger_def example_config_def)
  have silent: "Logger_info example_logger m JUndefined v = v"
    "Logger_debug example_logger m JUndefined v = v" for m v
    by (simp_all add: Logger_info_def Logger_debug_def Logger_shouldLog_def cfg)
  have manager: "ModelManager_initialize (app_modelManager example_app)
        (Logger_info (app_logger example_app) ''Initializing LangChain starter...'' JUndefined empty_world)
      = (Inr (), ready_manager, \<lparr> console = [], timers = [100] \<rparr>)"
    by (simp add: example_app_def example_manager_def new_ModelManager_def ready_manager_def
        ModelManager_initialize_fresh silent empty_world_def)
  have failed: "fst (failing_testConnection ready_manager \<lparr> console = [], timers = [100] \<rparr>) = False"
    by (simp add: failing_testConnection_def)
  obtain res app' w' where run:
    "LangChainStarter_initialize_with failing_testConnection example_app empty_world = (res, app', w')"
    by (cases "LangChainStarter_initialize_with failing_testConnection example_app empty_world") auto
  from LangChainStarter_initialize_connection_failed [OF fresh manager failed run] run
    fresh manager failed
  show ?thesis by simp
qed

section \<open>LangChainCore: the vector store and the RAG chain\<close>

lemma slice_from_zero:
  "0 \<le> k \<Longrightarrow> slice xs (Finite 0) (Finite k) = take (nat k) xs"
  using slice_take_drop [of 0 k xs] by simp

lemma createVectorStore_ready:
  assumes "ModelManager_isInitialized mm"
  shows "createVectorStore core mm docs w =
           (Inr \<lparr> documents = docs,
                  search = (\<lambda>query k.
                     map (\<lambda>doc. \<lparr> content = doc, score = 0.8 \<rparr>)
                         (slice docs (Finite 0) (default_k k))) \<rparr>,
            Logger_info (core_logger core) ''Vector store created successfully''
              (JObject [(''docCount'', JNum (Finite (int (length docs))))])
              (Logger_info (core_logger core) ''Creating vector store...'' JUndefined w))"
  using assms by (simp add: createVectorStore_def Let_def)

lemma ready_manager_initialized: "ModelManager_isInitialized ready_manager"
  by (simp add: ModelManager_isInitialized_def ready_manager_def)

text \<open>
  The claim that \<open>search(query, k)\<close> returns \<open>min(k, docs.length)\<close> results for every
  \<open>k\<close> fails for a negative \<open>k\<close>: \<open>slice(0, -1)\<close> drops the last document, so three
  documents and \<open>k = -1\<close> give two results.
\<close>

theorem createVectorStore_search_negative_k_counterexample:
  "createVectorStore_search example_core ready_manager [''a'', ''b'', ''c''] ''anything''
       (Some (Finite (- 1))) empty_world
     = Some [\<lparr> content = ''a'', score = 0.8 \<rparr>, \<lparr> content = ''b'', score = 0.8 \<rparr>]
   \<and> int (length [\<lparr> content = ''a'', score = 0.8 \<rparr>, \<lparr> content = ''b'', score = 0.8 \<rparr>])
       \<noteq> min (- 1) (int (length [''a'', ''b'', ''c'']))"
  by (simp add: createVectorStore_search_def createVectorStore_ready ready_manager_initialized
      default_k_def slice_def)

text \<open>
  C4, amended. For every document list, every query and every integer \<open>k \<ge> 0\<close>, the
  store made by \<open>createVectorStore\<close> on an initialized manager keeps the documents, and
  \<open>search(query, k)\<close> returns the first \<open>min(k, docs.length)\<close> documents in order, each
  with score 0.8, whatever the query.
\<close>

theorem createVectorStore_search_first_k:
  assumes ready: "ModelManager_isInitialized mm" and k: "0 \<le> k"
  shows "\<exists>vs w'. createVectorStore core mm docs w = (Inr vs, w')
           \<and> documents vs = docs
           \<and> search vs query (Some (Finite k))
               = map (\<lambda>doc. \<lparr> content = doc, score = 0.8 \<rparr>) (take (nat k) docs)
           \<and> length (search vs query (Some (Finite k))) = min (nat k) (length docs)
           \<and> (\<forall>query'. search vs query' (Some (Finite k)) = search vs query (Some (Finite k)))"
  using k
  by (simp add: createVectorStore_ready [OF ready] default_k_def slice_from_zero min.commute)

text \<open>The example of the specification: \<open>search("anything", 2)\<close> on three documents.\<close>

theorem createVectorStore_search_first_k_witness:
  "ModelManager_isInitialized ready_manager \<and> (0::int) \<le> 2
   \<and> createVectorStore_search example_core ready_manager [''a'', ''b'', ''c''] ''anything''
        (Some (Finite 2)) empty_world
      = Some [\<lparr> content = ''a'', score = 0.8 \<rparr>, \<lparr> content = ''b'', score = 0.8 \<rparr>]"
proof -
  have k: "(0::int) \<le> 2" by simp
  from createVectorStore_search_first_k [OF ready_manager_initialized k,
      of example_core "[''a'', ''b'', ''c'']" empty_world "''anything''"]
  obtain vs w' where vs: "createVectorStore example_core ready_manager [''a'', ''b'', ''c''] empty_world
        = (Inr vs, w')"
    and res: "search vs ''anything'' (Some (Finite 2))
        = map (\<lambda>doc. \<lparr> content = doc, score = 0.8 \<rparr>) (take (nat 2) [''a'', ''b'', ''c''])"
    by blast
  from vs res show ?thesis
    by (simp add: createVectorStore_search_def ready_manager_initialized numeral_2_eq_2)
qed

lemma createRAGChain_ready:
  assumes "ModelManager_isInitialized mm"
  shows "\<exists>vs w'. createVectorStore core mm docs
              (Logger_info (core_logger core) ''Creating RAG chain...'' JUndefined w) = (Inr vs, w')
          \<and> search vs = (\<lambda>query k. map (\<lambda>doc. \<lparr> content = doc, score = 0.8 \<rparr>)
                                        (slice docs (Finite 0) (default_k k)))
          \<and> createRAGChain core mm docs w =
              (Inr \<lparr> vectorStore = vs,
                     rag_call = (\<lambda>query.
                       (let relevantDocs = search vs query None
                        in \<lparr> result = ''RAG response based on: ''
                                       @ join '', '' (map content relevantDocs),
                             sourceDocuments = relevantDocs \<rparr>)) \<rparr>,
               Logger_info (core_logger core) ''RAG chain created successfully'' JUndefined w')"
  by (simp add: createRAGChain_def createVectorStore_ready [OF assms] Let_def)

text \<open>
  The claim that the \<open>result\<close> field is the concatenation of the documents' content
  fails: the code puts a fixed label in front and joins the contents with a comma and
  a space.
\<close>

theorem createRAGChain_result_counterexample:
  "createRAGChain_call example_core ready_manager [''a'', ''b''] ''q'' empty_world
     = Some \<lparr> result = ''RAG response based on: a, b'',
              sourceDocuments = [\<lparr> content = ''a'', score = 0.8 \<rparr>, \<lparr> content = ''b'', score = 0.8 \<rparr>] \<rparr>
   \<and> ''RAG response based on: a, b''
       \<noteq> concat (map content [\<lparr> content = ''a'', score = 0.8 \<rparr>, \<lparr> content = ''b'', score = 0.8 \<rparr>])"
  by (simp add: createRAGChain_call_def createRAGChain_def
      createVectorStore_ready ready_manager_initialized default_k_def slice_def Let_def)

text \<open>
  C8, amended. For every document list and every query, the chain made by
  \<open>createRAGChain\<close> on an initialized manager holds a store of these documents; calling
  it with the query returns as \<open>sourceDocuments\<close> exactly the store's
  \<open>search(query)\<close> with the default \<open>k = 4\<close>, that is the first four documents with
  score 0.8, and as \<open>result\<close> the label "RAG response based on: " followed by the
  contents of these documents joined with ", ". The query changes nothing.
\<close>

theorem createRAGChain_call_result:
  assumes ready: "ModelManager_isInitialized mm"
  shows "\<exists>chain w'. createRAGChain core mm docs w = (Inr chain, w')
           \<and> documents (vectorStore chain) = docs
           \<and> (\<forall>query.
                 sourceDocuments (rag_call chain query) = search (vectorStore chain) query None
               \<and> search (vectorStore chain) query None
                   = map (\<lambda>doc. \<lparr> content = doc, score = 0.8 \<rparr>) (take 4 docs)
               \<and> result (rag_call chain query)
                   = ''RAG response based on: ''
                       @ join '', '' (map content (sourceDocuments (rag_call chain query)))
               \<and> result (rag_call chain query)
                   = ''RAG response based on: '' @ join '', '' (take 4 docs))"
proof -
  from createRAGChain_ready [OF ready, of core docs w]
  obtain vs w' where vs: "createVectorStore core mm docs
              (Logger_info (core_logger core) ''Creating RAG chain...'' JUndefined w) = (Inr vs, w')"
    and se: "search vs = (\<lambda>query k. map (\<lambda>doc. \<lparr> content = doc, score = 0.8 \<rparr>)
                                        (slice docs (Finite 0) (default_k k)))"
    and ch: "createRAGChain core mm docs w =
              (Inr \<lparr> vectorStore = vs,
                     rag_call = (\<lambda>query.
                       (let relevantDocs = search vs query None
                        in \<lparr> result = ''RAG response based on: ''
                                       @ join '', '' (map content relevantDocs),
                             sourceDocuments = relevantDocs \<rparr>)) \<rparr>,
               Logger_info (core_logger core) ''RAG chain created successfully'' JUndefined w')"
    by blast
  from vs have docs: "documents vs = docs"
    by (auto simp: createVectorStore_ready [OF ready])
  have four: "slice docs (Finite 0) (default_k None) = take 4 docs"
    by (simp add: default_k_def slice_from_zero)
  have contents: "map (content \<circ> (\<lambda>doc. \<lparr> content = doc, score = r \<rparr>)) xs = xs" for xs r
    by (induction xs) simp_all
  show ?thesis
    unfolding ch by (simp add: se docs four Let_def contents)
qed

text \<open>Five documents: the response names the first four.\<close>

theorem createRAGChain_call_result_witness:
  "ModelManager_isInitialized ready_manager
   \<and> createRAGChain_call example_core ready_manager
        [''a'', ''b'', ''c'', ''d'', ''e''] ''q'' empty_world
      = Some \<lparr> result = ''RAG response based on: a, b, c, d'',
               sourceDocuments =
                 [\<lparr> content = ''a'', score = 0.8 \<rparr>, \<lparr> content = ''b'', score = 0.8 \<rparr>,
                  \<lparr> content = ''c'', score = 0.8 \<rparr>, \<lparr> content = ''d'', score = 0.8 \<rparr>] \<rparr>"
proof -
  from createRAGChain_call_result [OF ready_manager_initialized,
      of example_core "[''a'', ''b'', ''c'', ''d'', ''e'']" empty_world]
  obtain chain w' where ch: "createRAGChain example_core ready_manager
        [''a'', ''b'', ''c'', ''d'', ''e''] empty_world = (Inr chain, w')"
    and src: "sourceDocuments (rag_call chain ''q'') = search (vectorStore chain) ''q'' None"
    and se: "search (vectorStore chain) ''q'' None
        = map (\<lambda>doc. \<lparr> content = doc, score = 0.8 \<rparr>) (take 4 [''a'', ''b'', ''c'', ''d'', ''e''])"
    and res: "result (rag_call chain ''q'')
        = ''RAG response based on: '' @ join '', '' (take 4 [''a'', ''b'', ''c'', ''d'', ''e''])"
    by blast
  have "rag_call chain ''q'' = \<lparr> result = result (rag_call chain ''q''),
      sourceDocuments = sourceDocuments (rag_call chain ''q'') \<rparr>"
    by simp
  with ch src se res show ?thesis
    by (simp add: createRAGChain_call_def ready_manager_initialized eval_nat_numeral)
qed

section \<open>LangChainCore: splitText\<close>

lemma splitText_ready:
  assumes "ModelManager_isInitialized mm"
  shows "splitText maxLength core mm s w =
     (case splitText_loop maxLength s (chunkSize (embeddings (ModelManager_getConfig mm)))
             (Finite 0) [] of
        Inl err \<Rightarrow>
          (Inl err,
           Logger_error (core_logger core) ''Error splitting text'' (JError err)
             (Logger_info (core_logger core) ''Splitting text into chunks...'' JUndefined w))
      | Inr chunks \<Rightarrow>
          (Inr chunks,
           Logger_info (core_logger core) ''Text split successfully''
             (JObject [(''chunkCount'', JNum (Finite (int (length chunks))))])
             (Logger_info (core_logger core) ''Splitting text into chunks...'' JUndefined w)))"
  using assms by (simp add: splitText_def Let_def)

lemma splitText_positive:
  assumes "ModelManager_isInitialized mm"
    and "chunkSize (embeddings (ModelManager_getConfig mm)) = Finite c" and "1 \<le> c"
    and "(length s + nat c - 1) div nat c \<le> maxLength"
  shows "splitText maxLength core mm s w =
          (Inr (spec_chunks (nat c) s),
           Logger_info (core_logger core) ''Text split successfully''
             (JObject [(''chunkCount'', JNum (Finite (int (length (spec_chunks (nat c) s)))))])
             (Logger_info (core_logger core) ''Splitting text into chunks...'' JUndefined w))"
proof -
  from assms(3) have c: "0 < nat c" by simp
  from assms(4) have "length [] + length (spec_chunks (nat c) (drop (nat 0) s)) \<le> maxLength"
    by (simp add: length_spec_chunks [OF c])
  from splitText_loop_positive [OF assms(3) _ this]
  have "splitText_loop maxLength s (Finite c) (Finite 0) [] = Inr (spec_chunks (nat c) s)"
    by simp
  with assms(1,2) show ?thesis by (simp add: splitText_ready)
qed

lemma splitText_overflow:
  assumes "ModelManager_isInitialized mm"
    and "chunkSize (embeddings (ModelManager_getConfig mm)) = Finite c" and "1 \<le> c"
    and "maxLength < (length s + nat c - 1) div nat c"
  shows "splitText maxLength core mm s w =
          (Inl (RangeError ''Invalid array length''),
           Logger_error (core_logger core) ''Error splitting text''
             (JError (RangeError ''Invalid array length''))
             (Logger_info (core_logger core) ''Splitting text into chunks...'' JUndefined w))"
proof -
  from assms(3) have c: "0 < nat c" by simp
  from assms(4) have "maxLength < length [] + length (spec_chunks (nat c) (drop (nat 0) s))"
    by (simp add: length_spec_chunks [OF c])
  from splitText_loop_overflow [OF assms(3) _ _ this]
  have "splitText_loop maxLength s (Finite c) (Finite 0) [] = Inl (RangeError ''Invalid array length'')"
    by simp
  with assms(1,2) show ?thesis by (simp add: splitText_ready)
qed

lemma splitText_nonpositive:
  assumes "ModelManager_isInitialized mm"
    and "chunkSize (embeddings (ModelManager_getConfig mm)) = Finite c"
    and "c \<le> 0" and "s \<noteq> []"
  shows "splitText maxLength core mm s w =
          (Inl (RangeError ''Invalid array length''),
           Logger_error (core_logger core) ''Error splitting text''
             (JError (RangeError ''Invalid array length''))
             (Logger_info (core_logger core) ''Splitting text into chunks...'' JUndefined w))"
  using assms by (simp add: splitText_ready splitText_loop_nonpositive)

lemma splitText_empty:
  assumes "ModelManager_isInitialized mm"
  shows "fst (splitText maxLength core mm [] w) = Inr []"
  using assms by (simp add: splitText_ready splitText_loop_empty)

lemma splitText_NaN:
  assumes "ModelManager_isInitialized mm"
    and "chunkSize (embeddings (ModelManager_getConfig mm)) = NaN"
    and "s \<noteq> []" and "0 < maxLength"
  shows "fst (splitText maxLength core mm s w) = Inr [[]]"
  using assms by (simp add: splitText_ready splitText_loop_NaN)

lemma with_chunkSize_simps:
  "ModelManager_isInitialized (with_chunkSize n mm) = ModelManager_isInitialized mm"
  "chunkSize (embeddings (ModelManager_getConfig (with_chunkSize n mm))) = n"
  by (simp_all add: with_chunkSize_def ModelManager_isInitialized_def ModelManager_getConfig_def)

lemma with_chunkOverlap_simps:
  "ModelManager_isInitialized (with_chunkOverlap n mm) = ModelManager_isInitialized mm"
  "chunkSize (embeddings (ModelManager_getConfig (with_chunkOverlap n mm)))
     = chunkSize (embeddings (ModelManager_getConfig mm))"
  by (simp_all add: with_chunkOverlap_def ModelManager_isInitialized_def ModelManager_getConfig_def)

lemma splitText_overlap_ignored:
  "splitText maxLength core (with_chunkOverlap ov mm) s w = splitText maxLength core mm s w"
proof (cases "ModelManager_isInitialized mm")
  case True
  then show ?thesis by (simp add: splitText_ready with_chunkOverlap_simps)
next
  case False
  then show ?thesis by (simp add: splitText_def with_chunkOverlap_simps)
qed

lemma example_silent:
  "Logger_info example_logger m d v = v" "Logger_debug example_logger m d v = v"
  by (simp_all add: Logger_info_def Logger_debug_def Logger_shouldLog_def
      example_logger_def example_config_def)

lemma example_error_logged:
  "Logger_error example_logger m (JError err) v
     = v\<lparr> console := console v @ [\<lparr> tag = ''ERROR'', message = m, extra = Some (JError err) \<rparr>] \<rparr>"
  by (simp add: Logger_error_def Logger_shouldLog_def Logger_log_def toUpperCase_levels
      example_logger_def example_config_def)

text \<open>
  The claim that \<open>splitText\<close> partitions every text into chunks of \<open>chunkSize\<close>
  characters fails when the configured size is not a positive number. With
  \<open>CHUNK_SIZE=abc\<close> the size is \<open>NaN\<close>: the loop runs once, \<open>slice(0, NaN)\<close> is empty, and
  the text "abc" comes back as the single empty chunk.
\<close>

theorem splitText_NaN_counterexample:
  "splitText standard_maxLength example_core (with_chunkSize NaN ready_manager) ''abc'' empty_world
     = (Inr [''''], empty_world)
   \<and> concat [''''] \<noteq> ''abc''"
proof -
  have "splitText_loop standard_maxLength ''abc'' NaN (Finite 0) [] = Inr ['''']"
    by (rule splitText_loop_NaN) (simp_all add: standard_maxLength_def)
  then show ?thesis
    by (simp add: splitText_ready with_chunkSize_simps ready_manager_initialized
        example_core_def example_silent)
qed

text \<open>
  C5, amended. On an initialized manager whose configured chunk size is an integer
  \<open>c \<ge> 1\<close>, \<open>splitText\<close> returns for every text whose \<open>\<lceil>length / c\<rceil>\<close> chunks fit an
  array: there are \<open>\<lceil>length / c\<rceil>\<close> chunks, and chunk \<open>j\<close> is the characters from position
  \<open>j * c\<close> up to \<open>j * c + c\<close> (fewer at the end of the text), so consecutive chunks never
  share a character. The configured overlap is not applied: with any other overlap
  value the call returns the same. (A text with more chunks than an array can hold
  makes \<open>chunks.push\<close> throw \<open>RangeError\<close>.)
\<close>

theorem splitText_chunks:
  assumes ready: "ModelManager_isInitialized mm"
    and size: "chunkSize (embeddings (ModelManager_getConfig mm)) = Finite c"
    and pos: "1 \<le> c"
    and fits: "(length s + nat c - 1) div nat c \<le> maxLength"
  shows "\<exists>chunks w'. splitText maxLength core mm s w = (Inr chunks, w')
           \<and> length chunks = (length s + nat c - 1) div nat c
           \<and> (\<forall>j < length chunks. chunks ! j = take (nat c) (drop (j * nat c) s))
           \<and> (\<forall>ov. splitText maxLength core (with_chunkOverlap ov mm) s w = (Inr chunks, w'))"
proof -
  from pos have c: "0 < nat c" by simp
  show ?thesis
    unfolding splitText_overlap_ignored splitText_positive [OF ready size pos fits]
    using length_spec_chunks [OF c, of s] spec_chunks_nth [OF c, of _ s]
    by simp
qed

text \<open>The example of the specification: chunk size 5 and the text "abcdefgh".\<close>

theorem splitText_chunks_witness:
  "ModelManager_isInitialized ready_manager
   \<and> chunkSize (embeddings (ModelManager_getConfig ready_manager)) = Finite 5 \<and> (1::int) \<le> 5
   \<and> (length ''abcdefgh'' + nat 5 - 1) div nat 5 \<le> standard_maxLength
   \<and> splitText standard_maxLength example_core ready_manager ''abcdefgh'' empty_world
       = (Inr [''abcde'', ''fgh''], empty_world)"
proof -
  have size: "chunkSize (embeddings (ModelManager_getConfig ready_manager)) = Finite 5"
    by (simp add: ModelManager_getConfig_def ready_manager_def example_manager_def
        new_ModelManager_def example_config_def)
  have pos: "(1::int) \<le> 5" by simp
  have fits: "(length ''abcdefgh'' + nat 5 - 1) div nat 5 \<le> standard_maxLength"
    by (simp add: standard_maxLength_def)
  from splitText_chunks [OF ready_manager_initialized size pos fits, of example_core empty_world]
  obtain chunks w' where run: "splitText standard_maxLength example_core ready_manager ''abcdefgh''
        empty_world = (Inr chunks, w')"
    and len: "length chunks = (length ''abcdefgh'' + nat 5 - 1) div nat 5"
    and nth: "\<forall>j < length chunks. chunks ! j = take (nat 5) (drop (j * nat 5) ''abcdefgh'')"
    by blast
  from len have len2: "length chunks = 2" by simp
  then obtain a b where ab: "chunks = [a, b]"
    by (cases chunks; cases "tl chunks") auto
  from nth [rule_format, of 0] nth [rule_format, of 1] ab have "a = ''abcde''" "b = ''fgh''"
    by simp_all
  with ab have chunks: "chunks = [''abcde'', ''fgh'']" by simp
  from run have "w' = empty_world"
    by (simp add: splitText_ready ready_manager_initialized example_core_def example_silent
        split: sum.splits)
  with run chunks ready_manager_initialized size fits show ?thesis by simp
qed

text \<open>
  The claim that a chunk size of at least 1 is necessary for termination fails: with
  chunk size -1 and the text "abc" the loop condition stays true, but the call ends.
  \<open>chunks.push\<close> throws \<open>RangeError\<close> once the array is full, and the \<open>catch\<close> block logs the
  error and throws it again.
\<close>

theorem splitText_nonpositive_chunkSize_counterexample:
  "splitText standard_maxLength example_core (with_chunkSize (Finite (- 1)) ready_manager)
       ''abc'' empty_world
     = (Inl (RangeError ''Invalid array length''),
        \<lparr> console = [\<lparr> tag = ''ERROR'', message = ''Error splitting text'',
                       extra = Some (JError (RangeError ''Invalid array length'')) \<rparr>],
          timers = [] \<rparr>)"
proof -
  have "splitText standard_maxLength example_core (with_chunkSize (Finite (- 1)) ready_manager)
       ''abc'' empty_world
     = (Inl (RangeError ''Invalid array length''),
        Logger_error (core_logger example_core) ''Error splitting text''
          (JError (RangeError ''Invalid array length''))
          (Logger_info (core_logger example_core) ''Splitting text into chunks...'' JUndefined
             empty_world))"
    by (rule splitText_nonpositive [where c = "- 1"])
      (simp_all add: with_chunkSize_simps ready_manager_initialized)
  then show ?thesis
    by (simp add: example_core_def example_silent example_error_logged empty_world_def)
qed

text \<open>
  C10, amended. On an initialized manager with an integer chunk size \<open>c\<close>: if \<open>c \<ge> 1\<close>
  and the \<open>\<lceil>length / c\<rceil>\<close> chunks fit an array, \<open>splitText\<close> returns, the chunks
  concatenated in order are the text, every chunk but the last has exactly \<open>c\<close>
  characters, every chunk has between 1 and \<open>c\<close> characters, and the empty text gives
  the empty list. The bound on \<open>c\<close> is needed for a result, not for termination: if
  \<open>c \<le> 0\<close> and the text is not empty, the call fails with
  \<open>RangeError: Invalid array length\<close>, logged as "Error splitting text" and thrown again.
\<close>

theorem splitText_lossless_partition:
  assumes ready: "ModelManager_isInitialized mm"
    and size: "chunkSize (embeddings (ModelManager_getConfig mm)) = Finite c"
  shows "(1 \<le> c \<and> (length s + nat c - 1) div nat c \<le> maxLength \<longrightarrow>
            (\<exists>chunks w'. splitText maxLength core mm s w = (Inr chunks, w')
               \<and> concat chunks = s
               \<and> (\<forall>ch \<in> set (butlast chunks). int (length ch) = c)
               \<and> (\<forall>ch \<in> set chunks. 1 \<le> length ch \<and> int (length ch) \<le> c)
               \<and> (s = [] \<longrightarrow> chunks = [])))
       \<and> (c \<le> 0 \<and> s \<noteq> [] \<longrightarrow>
            splitText maxLength core mm s w =
              (Inl (RangeError ''Invalid array length''),
               Logger_error (core_logger core) ''Error splitting text''
                 (JError (RangeError ''Invalid array length''))
                 (Logger_info (core_logger core) ''Splitting text into chunks...'' JUndefined w)))"
proof (intro conjI impI)
  assume "1 \<le> c \<and> (length s + nat c - 1) div nat c \<le> maxLength"
  then have pos: "1 \<le> c" and fits: "(length s + nat c - 1) div nat c \<le> maxLength"
    by simp_all
  from pos have c: "0 < nat c" by simp
  have "concat (spec_chunks (nat c) s) = s"
    by (rule concat_spec_chunks [OF c])
  moreover have "\<forall>ch \<in> set (butlast (spec_chunks (nat c) s)). int (length ch) = c"
    using spec_chunks_butlast [OF c, of _ s] pos by auto
  moreover have "\<forall>ch \<in> set (spec_chunks (nat c) s). 1 \<le> length ch \<and> int (length ch) \<le> c"
  proof
    fix ch assume "ch \<in> set (spec_chunks (nat c) s)"
    from spec_chunks_lengths [OF c this] pos
    show "1 \<le> length ch \<and> int (length ch) \<le> c" by linarith
  qed
  moreover have "s = [] \<longrightarrow> spec_chunks (nat c) s = []" by simp
  ultimately show "\<exists>chunks w'. splitText maxLength core mm s w = (Inr chunks, w')
               \<and> concat chunks = s
               \<and> (\<forall>ch \<in> set (butlast chunks). int (length ch) = c)
               \<and> (\<forall>ch \<in> set chunks. 1 \<le> length ch \<and> int (length ch) \<le> c)
               \<and> (s = [] \<longrightarrow> chunks = [])"
    unfolding splitText_positive [OF ready size pos fits] by blast
next
  assume "c \<le> 0 \<and> s \<noteq> []"
  then show "splitText maxLength core mm s w =
              (Inl (RangeError ''Invalid array length''),
               Logger_error (core_logger core) ''Error splitting text''
                 (JError (RangeError ''Invalid array length''))
                 (Logger_info (core_logger core) ''Splitting text into chunks...'' JUndefined w))"
    using splitText_nonpositive [OF ready size] by blast
qed

text \<open>Chunk size 3 on "abcdefgh" returns a lossless split; chunk size -2 on "xy" fails.\<close>

theorem splitText_lossless_partition_witness:
  "ModelManager_isInitialized (with_chunkSize (Finite 3) ready_manager)
   \<and> chunkSize (embeddings (ModelManager_getConfig (with_chunkSize (Finite 3) ready_manager))) = Finite 3
   \<and> (1::int) \<le> 3 \<and> (length ''abcdefgh'' + nat 3 - 1) div nat 3 \<le> standard_maxLength
   \<and> (\<exists>chunks. fst (splitText standard_maxLength example_core
                        (with_chunkSize (Finite 3) ready_manager) ''abcdefgh'' empty_world)
                  = Inr chunks
                \<and> concat chunks = ''abcdefgh'')
   \<and> ModelManager_isInitialized (with_chunkSize (Finite (- 2)) ready_manager)
   \<and> chunkSize (embeddings (ModelManager_getConfig (with_chunkSize (Finite (- 2)) ready_manager)))
       = Finite (- 2)
   \<and> (- 2::int) \<le> 0 \<and> ''xy'' \<noteq> []
   \<and> fst (splitText standard_maxLength example_core (with_chunkSize (Finite (- 2)) ready_manager)
            ''xy'' empty_world)
       = Inl (RangeError ''Invalid array length'')"
proof -
  have r3: "ModelManager_isInitialized (with_chunkSize (Finite 3) ready_manager)"
    and rn: "ModelManager_isInitialized (with_chunkSize (Finite (- 2)) ready_manager)"
    by (simp_all add: with_chunkSize_simps ready_manager_initialized)
  have s3: "chunkSize (embeddings (ModelManager_getConfig (with_chunkSize (Finite 3) ready_manager))) = Finite 3"
    and sn: "chunkSize (embeddings (ModelManager_getConfig (with_chunkSize (Finite (- 2)) ready_manager)))
       = Finite (- 2)"
    by (simp_all add: with_chunkSize_simps)
  have fits: "(length ''abcdefgh'' + nat 3 - 1) div nat 3 \<le> standard_maxLength"
    by (simp add: standard_maxLength_def)
  from splitText_lossless_partition [OF r3 s3, of "''abcdefgh''" standard_maxLength example_core
      empty_world] fits
  have a: "\<exists>chunks. fst (splitText standard_maxLength example_core
                        (with_chunkSize (Finite 3) ready_manager) ''abcdefgh'' empty_world)
                  = Inr chunks
                \<and> concat chunks = ''abcdefgh''"
    by auto
  from splitText_lossless_partition [OF rn sn, of "''xy''" standard_maxLength example_core
      empty_world]
  have b: "fst (splitText standard_maxLength example_core (with_chunkSize (Finite (- 2)) ready_manager)
            ''xy'' empty_world)
       = Inl (RangeError ''Invalid array length'')"
    by simp
  from r3 rn s3 sn fits a b show ?thesis by simp
qed

section \<open>The initialization gate\<close>

lemma uninitialized_calls_fail:
  assumes "\<not> ModelManager_isInitialized mm"
  shows "fst (ModelManager_getChatModel mm w) = Inl (Error ''ModelManager must be initialized before use'')"
    and "fst (ModelManager_getEmbeddings mm w) = Inl (Error ''ModelManager must be initialized before use'')"
    and "fst (ModelManager_getTextSplitter mm w) = Inl (Error ''ModelManager must be initialized before use'')"
    and "fst (simpleChat core mm msg systemPrompt w) = Inl (Error ''ModelManager must be initialized before use'')"
    and "fst (createPromptChain stringify core mm tmpl w) = Inl (Error ''ModelManager must be initialized before use'')"
    and "fst (createVectorStore core mm docs w) = Inl (Error ''ModelManager must be initialized before use'')"
    and "fst (createRAGChain core mm docs w) = Inl (Error ''ModelManager must be initialized before use'')"
    and "fst (similaritySearch core mm query docs k w) = Inl (Error ''ModelManager must be initialized before use'')"
    and "fst (LangChainCore_getEmbeddings random core mm s w) = Inl (Error ''ModelManager must be initialized before use'')"
    and "fst (splitText maxLength core mm s w) = Inl (Error ''ModelManager must be initialized before use'')"
  using assms
  by (simp_all add: ModelManager_getChatModel_def ModelManager_getEmbeddings_def
      ModelManager_getTextSplitter_def simpleChat_def createPromptChain_def createVectorStore_def
      createRAGChain_def similaritySearch_def LangChainCore_getEmbeddings_def splitText_def
      ModelManager_isInitialized_def Let_def)

lemma initialized_calls_succeed:
  assumes "ModelManager_isInitialized mm"
  shows "fst (ModelManager_getChatModel mm w) = Inr JNull"
    and "fst (ModelManager_getEmbeddings mm w) = Inr JNull"
    and "fst (ModelManager_getTextSplitter mm w) = Inr JNull"
    and "fst (simpleChat core mm msg systemPrompt w) = Inr (''Echo: '' @ msg)"
    and "\<exists>chain. fst (createPromptChain stringify core mm tmpl w) = Inr chain"
    and "\<exists>vs. fst (createVectorStore core mm docs w) = Inr vs"
    and "\<exists>chain. fst (createRAGChain core mm docs w) = Inr chain"
    and "\<exists>results. fst (similaritySearch core mm query docs k w) = Inr results"
    and "\<exists>vec. fst (LangChainCore_getEmbeddings random core mm s w) = Inr vec \<and> length vec = 1536"
  using assms
  by (simp_all add: ModelManager_getChatModel_def ModelManager_getEmbeddings_def
      ModelManager_getTextSplitter_def simpleChat_def createPromptChain_def createVectorStore_def
      createRAGChain_def similaritySearch_def LangChainCore_getEmbeddings_def
      ModelManager_isInitialized_def Let_def)

lemma initialized_splitText:
  assumes ready: "ModelManager_isInitialized mm"
  shows "s = [] \<longrightarrow> fst (splitText maxLength core mm s w) = Inr []"
    and "chunkSize (embeddings (ModelManager_getConfig mm)) = NaN \<and> s \<noteq> [] \<and> 0 < maxLength \<longrightarrow>
           fst (splitText maxLength core mm s w) = Inr ['''']"
    and "\<forall>c. chunkSize (embeddings (ModelManager_getConfig mm)) = Finite c \<and> 1 \<le> c
             \<and> (length s + nat c - 1) div nat c \<le> maxLength \<longrightarrow>
           (\<exists>chunks. fst (splitText maxLength core mm s w) = Inr chunks)"
    and "\<forall>c. chunkSize (embeddings (ModelManager_getConfig mm)) = Finite c \<and> 1 \<le> c
             \<and> maxLength < (length s + nat c - 1) div nat c \<longrightarrow>
           fst (splitText maxLength core mm s w) = Inl (RangeError ''Invalid array length'')"
    and "\<forall>c. chunkSize (embeddings (ModelManager_getConfig mm)) = Finite c \<and> c \<le> 0 \<and> s \<noteq> [] \<longrightarrow>
           fst (splitText maxLength core mm s w) = Inl (RangeError ''Invalid array length'')"
proof -
  show "s = [] \<longrightarrow> fst (splitText maxLength core mm s w) = Inr []"
    by (simp add: splitText_empty [OF ready])
  show "chunkSize (embeddings (ModelManager_getConfig mm)) = NaN \<and> s \<noteq> [] \<and> 0 < maxLength \<longrightarrow>
           fst (splitText maxLength core mm s w) = Inr ['''']"
    by (simp add: splitText_NaN [OF ready])
  show "\<forall>c. chunkSize (embeddings (ModelManager_getConfig mm)) = Finite c \<and> 1 \<le> c
             \<and> (length s + nat c - 1) div nat c \<le> maxLength \<longrightarrow>
           (\<exists>chunks. fst (splitText maxLength core mm s w) = Inr chunks)"
    by (simp add: splitText_positive [OF ready])
  show "\<forall>c. chunkSize (embeddings (ModelManager_getConfig mm)) = Finite c \<and> 1 \<le> c
             \<and> maxLength < (length s + nat c - 1) div nat c \<longrightarrow>
           fst (splitText maxLength core mm s w) = Inl (RangeError ''Invalid array length'')"
    by (simp add: splitText_overflow [OF ready])
  show "\<forall>c. chunkSize (embeddings (ModelManager_getConfig mm)) = Finite c \<and> c \<le> 0 \<and> s \<noteq> [] \<longrightarrow>
           fst (splitText maxLength core mm s w) = Inl (RangeError ''Invalid array length'')"
    by (simp add: splitText_nonpositive [OF ready])
qed

text \<open>
  The claim that every operation succeeds once \<open>initialize\<close> has succeeded fails for
  \<open>splitText\<close> when the configured chunk size is 0 (\<open>CHUNK_SIZE=0\<close>): the manager
  initializes, and \<open>splitText("a")\<close> fills its array until \<open>chunks.push\<close> throws
  \<open>RangeError\<close>, which the call logs and throws again.
\<close>

theorem splitText_zero_chunkSize_counterexample:
  "ModelManager_initialize (with_chunkSize (Finite 0) example_manager) empty_world
     = (Inr (), with_chunkSize (Finite 0) ready_manager, \<lparr> console = [], timers = [100] \<rparr>)
   \<and> splitText standard_maxLength example_core (with_chunkSize (Finite 0) ready_manager) ''a''
         \<lparr> console = [], timers = [100] \<rparr>
       = (Inl (RangeError ''Invalid array length''),
          \<lparr> console = [\<lparr> tag = ''ERROR'', message = ''Error splitting text'',
                         extra = Some (JError (RangeError ''Invalid array length'')) \<rparr>],
            timers = [100] \<rparr>)"
proof -
  have "ModelManager_initialize (with_chunkSize (Finite 0) example_manager) empty_world
     = (Inr (), with_chunkSize (Finite 0) ready_manager, \<lparr> console = [], timers = [100] \<rparr>)"
    by (simp add: ModelManager_initialize_fresh with_chunkSize_def example_manager_def
        new_ModelManager_def ready_manager_def example_silent empty_world_def)
  moreover have "splitText standard_maxLength example_core (with_chunkSize (Finite 0) ready_manager)
         ''a'' \<lparr> console = [], timers = [100] \<rparr>
       = (Inl (RangeError ''Invalid array length''),
          Logger_error (core_logger example_core) ''Error splitting text''
            (JError (RangeError ''Invalid array length''))
            (Logger_info (core_logger example_core) ''Splitting text into chunks...'' JUndefined
               \<lparr> console = [], timers = [100] \<rparr>))"
    by (rule splitText_nonpositive [where c = 0])
      (simp_all add: with_chunkSize_simps ready_manager_initialized)
  ultimately show ?thesis
    by (simp add: example_core_def example_silent example_error_logged)
qed

text \<open>
  C1, amended. While the manager's flag is false, each of the three accessors and each
  of the seven core operations fails with the "ModelManager must be initialized before
  use" error. \<open>initialize\<close> always succeeds, and on the manager it leaves behind the
  accessors return the null placeholder and the core operations succeed, with one
  exception: \<open>splitText\<close> fails with \<open>RangeError: Invalid array length\<close> on a non-empty
  text when the configured chunk size is an integer \<open>c \<le> 0\<close>, and when it is an integer
  \<open>c \<ge> 1\<close> but the \<open>\<lceil>length / c\<rceil>\<close> chunks do not fit an array. \<open>splitText\<close> succeeds on the
  empty text, with a \<open>NaN\<close> chunk size, and with an integer \<open>c \<ge> 1\<close> whose chunks fit.
\<close>

theorem initialization_gate:
  "(\<not> ModelManager_isInitialized mm \<longrightarrow>
       fst (ModelManager_getChatModel mm w) = Inl (Error ''ModelManager must be initialized before use'')
     \<and> fst (ModelManager_getEmbeddings mm w) = Inl (Error ''ModelManager must be initialized before use'')
     \<and> fst (ModelManager_getTextSplitter mm w) = Inl (Error ''ModelManager must be initialized before use'')
     \<and> fst (simpleChat core mm msg systemPrompt w) = Inl (Error ''ModelManager must be initialized before use'')
     \<and> fst (createPromptChain stringify core mm tmpl w) = Inl (Error ''ModelManager must be initialized before use'')
     \<and> fst (createVectorStore core mm docs w) = Inl (Error ''ModelManager must be initialized before use'')
     \<and> fst (createRAGChain core mm docs w) = Inl (Error ''ModelManager must be initialized before use'')
     \<and> fst (similaritySearch core mm query docs k w) = Inl (Error ''ModelManager must be initialized before use'')
     \<and> fst (LangChainCore_getEmbeddings random core mm s w) = Inl (Error ''ModelManager must be initialized before use'')
     \<and> fst (splitText maxLength core mm s w) = Inl (Error ''ModelManager must be initialized before use''))
   \<and> (ModelManager_initialize mm w0 = (r, mm', w1) \<longrightarrow>
       r = Inr () \<and> ModelManager_isInitialized mm'
     \<and> fst (ModelManager_getChatModel mm' w) = Inr JNull
     \<and> fst (ModelManager_getEmbeddings mm' w) = Inr JNull
     \<and> fst (ModelManager_getTextSplitter mm' w) = Inr JNull
     \<and> fst (simpleChat core mm' msg systemPrompt w) = Inr (''Echo: '' @ msg)
     \<and> (\<exists>chain. fst (createPromptChain stringify core mm' tmpl w) = Inr chain)
     \<and> (\<exists>vs. fst (createVectorStore core mm' docs w) = Inr vs)
     \<and> (\<exists>chain. fst (createRAGChain core mm' docs w) = Inr chain)
     \<and> (\<exists>results. fst (similaritySearch core mm' query docs k w) = Inr results)
     \<and> (\<exists>vec. fst (LangChainCore_getEmbeddings random core mm' s w) = Inr vec \<and> length vec = 1536)
     \<and> (s = [] \<longrightarrow> fst (splitText maxLength core mm' s w) = Inr [])
     \<and> (chunkSize (embeddings (ModelManager_getConfig mm')) = NaN \<and> s \<noteq> [] \<and> 0 < maxLength \<longrightarrow>
           fst (splitText maxLength core mm' s w) = Inr [''''])
     \<and> (\<forall>c. chunkSize (embeddings (ModelManager_getConfig mm')) = Finite c \<and> 1 \<le> c
             \<and> (length s + nat c - 1) div nat c \<le> maxLength \<longrightarrow>
           (\<exists>chunks. fst (splitText maxLength core mm' s w) = Inr chunks))
     \<and> (\<forall>c. chunkSize (embeddings (ModelManager_getConfig mm')) = Finite c \<and> 1 \<le> c
             \<and> maxLength < (length s + nat c - 1) div nat c \<longrightarrow>
           fst (splitText maxLength core mm' s w) = Inl (RangeError ''Invalid array length''))
     \<and> (\<forall>c. chunkSize (embeddings (ModelManager_getConfig mm')) = Finite c \<and> c \<le> 0 \<and> s \<noteq> [] \<longrightarrow>
           fst (splitText maxLength core mm' s w) = Inl (RangeError ''Invalid array length'')))"
proof (intro conjI impI)
  assume run: "ModelManager_initialize mm w0 = (r, mm', w1)"
  from ModelManager_initialize_succeeds [of mm w0] run
  have r: "r = Inr ()" and mm': "mm' = mm\<lparr> mm_initialized := True \<rparr>" by auto
  from mm' have ready: "ModelManager_isInitialized mm'"
    by (simp add: ModelManager_isInitialized_def)
  show "r = Inr ()" by (rule r)
  show "ModelManager_isInitialized mm'" by (rule ready)
  show "fst (ModelManager_getChatModel mm' w) = Inr JNull"
    by (rule initialized_calls_succeed [OF ready])
  show "fst (ModelManager_getEmbeddings mm' w) = Inr JNull"
    by (rule initialized_calls_succeed [OF ready])
  show "fst (ModelManager_getTextSplitter mm' w) = Inr JNull"
    by (rule initialized_calls_succeed [OF ready])
  show "fst (simpleChat core mm' msg systemPrompt w) = Inr (''Echo: '' @ msg)"
    by (rule initialized_calls_succeed [OF ready])
  show "\<exists>chain. fst (createPromptChain stringify core mm' tmpl w) = Inr chain"
    by (rule initialized_calls_succeed [OF ready])
  show "\<exists>vs. fst (createVectorStore core mm' docs w) = Inr vs"
    by (rule initialized_calls_succeed [OF ready])
  show "\<exists>chain. fst (createRAGChain core mm' docs w) = Inr chain"
    by (rule initialized_calls_succeed [OF ready])
  show "\<exists>results. fst (similaritySearch core mm' query docs k w) = Inr results"
    by (rule initialized_calls_succeed [OF ready])
  show "\<exists>vec. fst (LangChainCore_getEmbeddings random core mm' s w) = Inr vec \<and> length vec = 1536"
    by (rule initialized_calls_succeed [OF ready])
  assume "s = []"
  with initialized_splitText(1) [OF ready, of s maxLength core w]
  show "fst (splitText maxLength core mm' s w) = Inr []" by simp
next
  assume run: "ModelManager_initialize mm w0 = (r, mm', w1)"
  from ModelManager_initialize_succeeds [of mm w0] run
  have mm': "mm' = mm\<lparr> mm_initialized := True \<rparr>" by auto
  then have ready: "ModelManager_isInitialized mm'"
    by (simp add: ModelManager_isInitialized_def)
  assume "chunkSize (embeddings (ModelManager_getConfig mm')) = NaN \<and> s \<noteq> [] \<and> 0 < maxLength"
  with initialized_splitText(2) [OF ready, of s maxLength core w]
  show "fst (splitText maxLength core mm' s w) = Inr ['''']" by simp
next
  assume run: "ModelManager_initialize mm w0 = (r, mm', w1)"
  from ModelManager_initialize_succeeds [of mm w0] run
  have mm': "mm' = mm\<lparr> mm_initialized := True \<rparr>" by auto
  then have ready: "ModelManager_isInitialized mm'"
    by (simp add: ModelManager_isInitialized_def)
  show "\<forall>c. chunkSize (embeddings (ModelManager_getConfig mm')) = Finite c \<and> 1 \<le> c
             \<and> (length s + nat c - 1) div nat c \<le> maxLength \<longrightarrow>
           (\<exists>chunks. fst (splitText maxLength core mm' s w) = Inr chunks)"
    by (rule initialized_splitText(3) [OF ready])
  show "\<forall>c. chunkSize (embeddings (ModelManager_getConfig mm')) = Finite c \<and> 1 \<le> c
             \<and> maxLength < (length s + nat c - 1) div nat c \<longrightarrow>
           fst (splitText maxLength core mm' s w) = Inl (RangeError ''Invalid array length'')"
    by (rule initialized_splitText(4) [OF ready])
  show "\<forall>c. chunkSize (embeddings (ModelManager_getConfig mm')) = Finite c \<and> c \<le> 0 \<and> s \<noteq> [] \<longrightarrow>
           fst (splitText maxLength core mm' s w) = Inl (RangeError ''Invalid array length'')"
    by (rule initialized_splitText(5) [OF ready])
qed (rule uninitialized_calls_fail, assumption)+

text \<open>
  The example manager: before \<open>initialize\<close> the calls fail, after it \<open>simpleChat\<close> echoes,
  \<open>splitText\<close> (chunk size 5) returns, and the empty text gives the empty list.
\<close>

theorem initialization_gate_witness:
  "\<not> ModelManager_isInitialized example_manager
   \<and> fst (simpleChat example_core example_manager ''hello'' (Some ''ignored system prompt'') empty_world)
       = Inl (Error ''ModelManager must be initialized before use'')
   \<and> fst (splitText standard_maxLength example_core example_manager ''abcdefgh'' empty_world)
       = Inl (Error ''ModelManager must be initialized before use'')
   \<and> ModelManager_initialize example_manager empty_world
       = (Inr (), ready_manager, \<lparr> console = [], timers = [100] \<rparr>)
   \<and> fst (simpleChat example_core ready_manager ''hello'' (Some ''ignored system prompt'') empty_world)
       = Inr ''Echo: hello''
   \<and> chunkSize (embeddings (ModelManager_getConfig ready_manager)) = Finite 5 \<and> (1::int) \<le> 5
   \<and> (length ''abcdefgh'' + nat 5 - 1) div nat 5 \<le> standard_maxLength
   \<and> (\<exists>chunks. fst (splitText standard_maxLength example_core ready_manager ''abcdefgh'' empty_world)
                  = Inr chunks)
   \<and> fst (splitText standard_maxLength example_core ready_manager [] empty_world) = Inr []"
proof -
  have fresh: "\<not> ModelManager_isInitialized example_manager"
    by (simp add: ModelManager_isInitialized_def example_manager_def new_ModelManager_def)
  have run: "ModelManager_initialize example_manager empty_world
       = (Inr (), ready_manager, \<lparr> console = [], timers = [100] \<rparr>)"
    by (simp add: ModelManager_initialize_fresh example_manager_def new_ModelManager_def
        ready_manager_def example_silent empty_world_def)
  have size: "chunkSize (embeddings (ModelManager_getConfig ready_manager)) = Finite 5"
    by (simp add: ModelManager_getConfig_def ready_manager_def example_manager_def
        new_ModelManager_def example_config_def)
  have fits: "(length ''abcdefgh'' + nat 5 - 1) div nat 5 \<le> standard_maxLength"
    by (simp add: standard_maxLength_def)
  note gate = initialization_gate [where mm = example_manager and w = empty_world
      and core = example_core and msg = "''hello''" and systemPrompt = "Some ''ignored system prompt''"
      and stringify = "\<lambda>v::string. v" and tmpl = "''t''" and docs = "[]" and query = "''q''"
      and k = None and random = "\<lambda>i::nat. i" and s = "''abcdefgh''"
      and maxLength = standard_maxLength and ?w0.0 = empty_world
      and r = "Inr ()" and mm' = ready_manager and ?w1.0 = "\<lparr> console = [], timers = [100] \<rparr>"]
  note gate_empty = initialization_gate [where mm = example_manager and w = empty_world
      and core = example_core and msg = "''hello''" and systemPrompt = "Some ''ignored system prompt''"
      and stringify = "\<lambda>v::string. v" and tmpl = "''t''" and docs = "[]" and query = "''q''"
      and k = None and random = "\<lambda>i::nat. i" and s = "[]"
      and maxLength = standard_maxLength and ?w0.0 = empty_world
      and r = "Inr ()" and mm' = ready_manager and ?w1.0 = "\<lparr> console = [], timers = [100] \<rparr>"]
  from gate fresh have a: "fst (simpleChat example_core example_manager ''hello''
        (Some ''ignored system prompt'') empty_world)
       = Inl (Error ''ModelManager must be initialized before use'')"
    and b: "fst (splitText standard_maxLength example_core example_manager ''abcdefgh'' empty_world)
       = Inl (Error ''ModelManager must be initialized before use'')"
    by blast+
  from gate run have c: "fst (simpleChat example_core ready_manager ''hello''
        (Some ''ignored system prompt'') empty_world) = Inr (''Echo: '' @ ''hello'')"
    and d: "\<forall>c. chunkSize (embeddings (ModelManager_getConfig ready_manager)) = Finite c \<and> 1 \<le> c
             \<and> (length ''abcdefgh'' + nat c - 1) div nat c \<le> standard_maxLength \<longrightarrow>
           (\<exists>chunks. fst (splitText standard_maxLength example_core ready_manager ''abcdefgh''
                            empty_world) = Inr chunks)"
    by blast+
  have pos: "(1::int) \<le> 5" by simp
  from d [rule_format, of 5] size pos fits
  have e: "\<exists>chunks. fst (splitText standard_maxLength example_core ready_manager
      ''abcdefgh'' empty_world) = Inr chunks"
    by blast
  from gate_empty run
  have f: "fst (splitText standard_maxLength example_core ready_manager [] empty_world) = Inr []"
    by blast
  from fresh a b run c size fits e f show ?thesis by simp
qed

end
